theory Spec2Isabelle
  imports Complex_Main
begin

section \<open>Vendor contract lock-in risk engine: scoring and clause extraction\<close>

text \<open>
  A shallow embedding of \<^verbatim>\<open>src/code/scoring_algorithm.py\<close>,
  \<^verbatim>\<open>src/code/risk_assessor.py\<close> and the scoring part of
  \<^verbatim>\<open>src/code/interactive_assessment.py\<close>.

  Modelling conventions.
  \<^item> A Python \<^verbatim>\<open>float\<close> is a real number (\<^typ>\<open>real\<close>) that stands for the double
    nearest to it, and sums, products and quotients are exact. The double arithmetic of
    the source differs from this by a rounding error far below the two decimals that are
    stored, so it shows in a stored value in one place only: when the exact argument of
    \<^verbatim>\<open>round(x, n)\<close> lies halfway between two multiples of \<open>10\<^sup>-\<^sup>n\<close>, the double that
    the source rounds lies just above or just below, and \<^verbatim>\<open>round\<close> goes up or down with
    it (the source stores 14.37 for the exact product 14.375 of two service-level clauses,
    High with \<^verbatim>\<open>no_sla\<close> and Medium with \<^verbatim>\<open>standard\<close>). The model does not decide
    these ties: the direction is a parameter of every function that rounds
    (\<open>float_ties\<close> below), and every property is proved for all directions.
  \<^item> A Python \<^verbatim>\<open>str\<close> is a \<^typ>\<open>string\<close>; one \<^typ>\<open>char\<close> stands for one code point
    below 256, so \<^verbatim>\<open>len\<close> is \<^const>\<open>length\<close>.
  \<^item> A Python \<^verbatim>\<open>dict\<close> with string keys is an association list in insertion order,
    read with \<^const>\<open>map_of\<close>; a key that is absent from the dict is absent from the list.
\<close>

subsection \<open>Python values and rounding\<close>

datatype pyval =
  PInt int
| PFloat real
| PBool bool
| PStr string
| PList "pyval list"
| PDict "(string \<times> pyval) list"

type_synonym pydict = "(string \<times> pyval) list"

datatype py_exception = KeyError

text \<open>\<^verbatim>\<open>d.get(key, default)\<close>\<close>

definition get_default :: "pydict \<Rightarrow> string \<Rightarrow> pyval \<Rightarrow> pyval" where
  "get_default d k dflt = (case map_of d k of None \<Rightarrow> dflt | Some v \<Rightarrow> v)"

text \<open>\<^verbatim>\<open>d[key] = value\<close>: an existing key keeps its place, a new key goes last.\<close>

fun dict_set :: "pydict \<Rightarrow> string \<Rightarrow> pyval \<Rightarrow> pydict" where
  "dict_set [] k v = [(k, v)]"
| "dict_set ((k', v') # d) k v = (if k' = k then (k, v) # d else (k', v') # dict_set d k v)"

text \<open>
  The nearest integer; \<open>up\<close> is the direction taken when \<open>x\<close> lies exactly halfway
  between two integers.
\<close>

definition round_nearest :: "bool \<Rightarrow> real \<Rightarrow> int" where
  "round_nearest up x =
     (let f = \<lfloor>x\<rfloor>; d = x - of_int f
      in if d < 1 / 2 then f
         else if 1 / 2 < d then f + 1
         else if up then f + 1 else f)"

text \<open>\<^verbatim>\<open>round(x, ndigits)\<close> on a float, with the direction at a tie.\<close>

definition py_round :: "bool \<Rightarrow> real \<Rightarrow> nat \<Rightarrow> real" where
  "py_round up x ndigits = of_int (round_nearest up (x * 10 ^ ndigits)) / 10 ^ ndigits"

text \<open>
  The directions that the double arithmetic of the source takes at the ties of its three
  calls of \<^verbatim>\<open>round\<close>, each as a function of the operands of the computation whose
  result is rounded: the clauses of the category and its weight for the category score,
  the two counts for the high-risk percentage, the category scores for the total.
\<close>

record float_ties =
  score_tie :: "pydict list \<Rightarrow> int \<Rightarrow> bool"
  percentage_tie :: "nat \<Rightarrow> nat \<Rightarrow> bool"
  total_tie :: "real list \<Rightarrow> bool"

subsection \<open>Configuration tables of the scorer\<close>

definition CATEGORY_WEIGHTS :: "(string \<times> int) list" where
  "CATEGORY_WEIGHTS =
     [(''service_level'', 25),
      (''pricing_terms'', 25),
      (''termination_exit'', 20),
      (''data_portability'', 15),
      (''support_obligations'', 15)]"

definition LOCK_IN_MULTIPLIERS :: "(string \<times> real) list" where
  "LOCK_IN_MULTIPLIERS =
     [(''no_compensation'', 1),
      (''price_increase_risk'', 1),
      (''data_restriction'', 1),
      (''unilateral_pricing'', 1),
      (''no_sla'', 1),
      (''discontinuation_risk'', 7 / 10),
      (''automatic_renewal'', 7 / 10),
      (''limited_remedies'', 7 / 10),
      (''no_commitment'', 7 / 10),
      (''no_guarantee'', 7 / 10),
      (''cancellation_penalty'', 1 / 2),
      (''no_support_guarantee'', 1 / 2),
      (''exit_fees'', 1 / 2),
      (''no_notice_changes'', 1 / 2),
      (''standard'', 3 / 10)]"

definition RISK_THRESHOLDS :: "(string \<times> (int \<times> int)) list" where
  "RISK_THRESHOLDS =
     [(''low'', (0, 33)),
      (''medium'', (34, 66)),
      (''high'', (67, 100))]"

text \<open>
  \<^verbatim>\<open>self.risk_thresholds[key]\<close>; the source only reads the keys \<^verbatim>\<open>"low"\<close> and
  \<^verbatim>\<open>"medium"\<close>, which are present, so the \<^verbatim>\<open>KeyError\<close> branch is never taken.
\<close>

definition risk_threshold :: "string \<Rightarrow> int \<times> int" where
  "risk_threshold k = (case map_of RISK_THRESHOLDS k of Some r \<Rightarrow> r | None \<Rightarrow> (0, 0))"

subsection \<open>\<^verbatim>\<open>ContractScorer.calculate_category_score\<close>\<close>

text \<open>
  \<^verbatim>\<open>self.lock_in_multipliers.get(lock_in_type, default)\<close>: the table has string keys
  only, so a value that is not a string is never found.
\<close>

fun multiplier_get :: "pyval \<Rightarrow> real \<Rightarrow> real" where
  "multiplier_get (PStr s) dflt =
     (case map_of LOCK_IN_MULTIPLIERS s of None \<Rightarrow> dflt | Some m \<Rightarrow> m)"
| "multiplier_get _ dflt = dflt"

text \<open>\<^verbatim>\<open>[c for c in clauses if c.get('clause_category') == category]\<close>\<close>

definition category_clauses :: "pydict list \<Rightarrow> string \<Rightarrow> pydict list" where
  "category_clauses clauses category =
     filter (\<lambda>c. map_of c ''clause_category'' = Some (PStr category)) clauses"

text \<open>
  The loop \<^verbatim>\<open>for clause in category_clauses\<close>, threading \<^verbatim>\<open>total_penalty\<close> and
  \<^verbatim>\<open>high_risk_count\<close>.
\<close>

fun penalty_loop :: "pydict list \<Rightarrow> real \<Rightarrow> nat \<Rightarrow> real \<times> nat" where
  "penalty_loop [] total_penalty high_risk_count = (total_penalty, high_risk_count)"
| "penalty_loop (clause # rest) total_penalty high_risk_count =
     (let risk_level = get_default clause ''risk_level'' (PStr ''Medium'');
          lock_in_type = get_default clause ''lock_in_mechanism'' (PStr ''standard'')
      in if risk_level = PStr ''High''
         then penalty_loop rest
                (total_penalty + multiplier_get lock_in_type (1 / 2)) (high_risk_count + 1)
         else penalty_loop rest
                (total_penalty + multiplier_get lock_in_type (3 / 10) * (1 / 2)) high_risk_count)"

text \<open>One iteration of \<^verbatim>\<open>for category, max_points in self.category_weights.items()\<close>:
  the entry of \<^verbatim>\<open>category_scores\<close> and the entry of \<^verbatim>\<open>category_details\<close>.\<close>

definition category_entry ::
  "float_ties \<Rightarrow> pydict list \<Rightarrow> string \<Rightarrow> int \<Rightarrow> real \<times> pydict" where
  "category_entry fp clauses category max_points =
     (let cat_clauses = category_clauses clauses category
      in if cat_clauses = []
         then (of_int max_points * (1 / 2),
               [(''score'', PFloat (of_int max_points * (1 / 2))),
                (''max_points'', PInt max_points),
                (''clause_count'', PInt 0),
                (''high_risk_count'', PInt 0),
                (''missing_coverage'', PBool True),
                (''penalty_reason'', PStr ''No clauses found in this category'')])
         else
           (let (total_penalty, high_risk_count) = penalty_loop cat_clauses 0 0;
                avg_penalty = total_penalty / of_nat (length cat_clauses);
                category_score = of_int max_points * avg_penalty;
                score_up = score_tie fp cat_clauses max_points;
                percentage_up = percentage_tie fp high_risk_count (length cat_clauses)
            in (py_round score_up category_score 2,
                [(''score'', PFloat (py_round score_up category_score 2)),
                 (''max_points'', PInt max_points),
                 (''clause_count'', PInt (int (length cat_clauses))),
                 (''high_risk_count'', PInt (int high_risk_count)),
                 (''high_risk_percentage'',
                    PFloat (py_round percentage_up
                      (of_nat high_risk_count / of_nat (length cat_clauses) * 100) 1)),
                 (''missing_coverage'', PBool False)])))"

definition calculate_category_score ::
  "float_ties \<Rightarrow> pydict list \<Rightarrow> (string \<times> real) list \<times> (string \<times> pydict) list" where
  "calculate_category_score fp clauses =
     (map (\<lambda>(category, max_points).
             (category, fst (category_entry fp clauses category max_points))) CATEGORY_WEIGHTS,
      map (\<lambda>(category, max_points).
             (category, snd (category_entry fp clauses category max_points))) CATEGORY_WEIGHTS)"

subsection \<open>\<^verbatim>\<open>ContractScorer.calculate_total_score\<close> and \<^verbatim>\<open>score_contract\<close>\<close>

definition calculate_total_score ::
  "float_ties \<Rightarrow> (string \<times> real) list \<Rightarrow> real \<times> string" where
  "calculate_total_score fp category_scores =
     (let total_score =
            py_round (total_tie fp (map snd category_scores))
              (sum_list (map snd category_scores)) 2
      in (total_score,
          if of_int (fst (risk_threshold ''low'')) \<le> total_score
              \<and> total_score \<le> of_int (snd (risk_threshold ''low''))
          then ''LOW''
          else if of_int (fst (risk_threshold ''medium'')) \<le> total_score
              \<and> total_score \<le> of_int (snd (risk_threshold ''medium''))
          then ''MEDIUM''
          else ''HIGH''))"

text \<open>
  The report of \<^verbatim>\<open>score_contract\<close>. Its entries \<^verbatim>\<open>critical_issues\<close>,
  \<^verbatim>\<open>recommendations\<close> and \<^verbatim>\<open>score_interpretation\<close> are texts derived from the four
  entries below and are left out.
\<close>

definition score_contract :: "float_ties \<Rightarrow> pydict list \<Rightarrow> pydict" where
  "score_contract fp clauses =
     (let (category_scores, category_details) = calculate_category_score fp clauses;
          (total_score, risk_level) = calculate_total_score fp category_scores
      in [(''total_score'', PFloat total_score),
          (''risk_level'', PStr risk_level),
          (''category_scores'', PDict (map (\<lambda>(c, x). (c, PFloat x)) category_scores)),
          (''category_details'', PDict (map (\<lambda>(c, d). (c, PDict d)) category_details))])"

subsection \<open>Strings\<close>

definition nl :: char where
  "nl = CHR 0x0A"

text \<open>
  \<^verbatim>\<open>str.isspace\<close> on one code point below 256: tab to carriage return, the four
  separators 0x1C to 0x1F, space, 0x85 and 0xA0. \<^verbatim>\<open>str.strip()\<close> removes these, and
  the regular-expression class \<^verbatim>\<open>\s\<close> matches them.
\<close>

definition isspace :: "char \<Rightarrow> bool" where
  "isspace c =
     (let n = (of_char c :: nat)
      in (9 \<le> n \<and> n \<le> 13) \<or> (28 \<le> n \<and> n \<le> 32) \<or> n = 133 \<or> n = 160)"

definition is_upper_AZ :: "char \<Rightarrow> bool" where
  "is_upper_AZ c = (let n = (of_char c :: nat) in 65 \<le> n \<and> n \<le> 90)"

definition is_digit_09 :: "char \<Rightarrow> bool" where
  "is_digit_09 c = (let n = (of_char c :: nat) in 48 \<le> n \<and> n \<le> 57)"

definition strip :: "string \<Rightarrow> string" where
  "strip s = rev (dropWhile isspace (rev (dropWhile isspace s)))"

text \<open>
  \<^verbatim>\<open>str.lower()\<close> on code points below 256: the letters A to Z and the Latin-1 capitals
  0xC0 to 0xDE (without the multiplication sign 0xD7) move up by 32.
\<close>

definition lower_char :: "char \<Rightarrow> char" where
  "lower_char c =
     (let n = (of_char c :: nat)
      in if (65 \<le> n \<and> n \<le> 90) \<or> (192 \<le> n \<and> n \<le> 222 \<and> n \<noteq> 215)
         then char_of (n + 32) else c)"

definition lower :: "string \<Rightarrow> string" where
  "lower s = map lower_char s"

text \<open>\<^verbatim>\<open>pat in text\<close> on strings: \<open>pat\<close> occurs as a contiguous substring.\<close>

fun starts_with :: "string \<Rightarrow> string \<Rightarrow> bool" where
  "starts_with [] text = True"
| "starts_with (p # ps) [] = False"
| "starts_with (p # ps) (c # cs) = (if p = c then starts_with ps cs else False)"

fun contains :: "string \<Rightarrow> string \<Rightarrow> bool" where
  "contains pat [] = (pat = [])"
| "contains pat (c # cs) = (if starts_with pat (c # cs) then True else contains pat cs)"

text \<open>\<^verbatim>\<open>str(n)\<close> for a non-negative integer, as the f-string of the clause id prints it.\<close>

fun str_nat :: "nat \<Rightarrow> string" where
  "str_nat n =
     (if n < 10 then [char_of (48 + n)]
      else str_nat (n div 10) @ [char_of (48 + n mod 10)])"

text \<open>\<^verbatim>\<open>text.split('\n')\<close>: every newline separates, empty pieces are kept.\<close>

fun split_newline :: "string \<Rightarrow> string \<Rightarrow> string list" where
  "split_newline acc [] = [rev acc]"
| "split_newline acc (c # cs) =
     (if c = nl then rev acc # split_newline [] cs else split_newline (c # acc) cs)"

subsection \<open>The section separator \<^verbatim>\<open>\n\n+|\n[0-9]+\.|\n[A-Z][A-Z\s]+\n\<close>\<close>

text \<open>
  Every alternative starts with a newline. \<open>match_separator cs\<close> is given the text \<open>cs\<close>
  that follows a newline and returns how many characters of \<open>cs\<close> the match consumes,
  or \<open>None\<close> when no alternative matches at that newline. The alternatives are tried
  in order; they exclude each other by the first character of \<open>cs\<close> (a newline, a
  digit, a capital letter).

  In the third alternative the greedy \<^verbatim>\<open>[A-Z\s]+\<close> first takes the longest run of
  capitals and whitespace and then gives characters back until the one it gave back last
  is a newline and at least one character of the run remains before it:
  \<open>last_newline_end\<close> finds that newline, the last one in the run that is not its first
  character.
\<close>

fun last_newline_end :: "string \<Rightarrow> nat \<Rightarrow> nat option \<Rightarrow> nat option" where
  "last_newline_end [] i best = best"
| "last_newline_end (c # cs) i best =
     last_newline_end cs (i + 1) (if c = nl \<and> 1 \<le> i then Some (i + 1) else best)"

definition match_separator :: "string \<Rightarrow> nat option" where
  "match_separator cs =
     (case cs of
        [] \<Rightarrow> None
      | c # rest \<Rightarrow>
          if c = nl then Some (length (takeWhile (\<lambda>x. x = nl) cs))
          else if is_digit_09 c then
            (let digits = takeWhile is_digit_09 cs
             in case drop (length digits) cs of
                  [] \<Rightarrow> None
                | d # _ \<Rightarrow> if d = CHR ''.'' then Some (length digits + 1) else None)
          else if is_upper_AZ c then
            (case last_newline_end
                    (takeWhile (\<lambda>x. is_upper_AZ x \<or> isspace x) rest) 0 None of
               None \<Rightarrow> None
             | Some k \<Rightarrow> Some (1 + k))
          else None)"

text \<open>
  \<^verbatim>\<open>re.split(pattern, text)\<close> for this pattern (no capture group, no empty match):
  the pieces between successive leftmost matches.
\<close>

fun re_split :: "string \<Rightarrow> string \<Rightarrow> string list" where
  "re_split acc [] = [rev acc]"
| "re_split acc (c # cs) =
     (if c = nl then
        (case match_separator cs of
           Some k \<Rightarrow> rev acc # re_split [] (drop k cs)
         | None \<Rightarrow> re_split (c # acc) cs)
      else re_split (c # acc) cs)"

subsection \<open>Configuration tables of the analyzer\<close>

record category_config =
  keywords_cfg :: "string list"
  negative_keywords :: "string list"
  required_phrases :: "string list"

definition CLAUSE_CATEGORIES :: "(string \<times> category_config) list" where
  "CLAUSE_CATEGORIES =
     [(''data_portability'',
       \<lparr>keywords_cfg =
          [''data export'', ''data portability'', ''data migration'',
           ''export data'', ''data transfer'', ''download data'',
           ''retrieve data'', ''data extraction'', ''data backup'',
           ''api access'', ''bulk export'', ''data ownership'',
           ''portable format'', ''standard format'', ''data retrieval''],
        negative_keywords =
          [''no obligation to provide'', ''may not export'',
           ''cannot export'', ''prohibit export'', ''restrict export'',
           ''no portability'', ''proprietary format only'',
           ''no api access'', ''limited export''],
        required_phrases =
          [''export'', ''portability'', ''migration'', ''api'', ''retrieval'']\<rparr>),
      (''pricing_terms'',
       \<lparr>keywords_cfg =
          [''pricing'', ''fees'', ''payment'', ''cost'', ''subscription'',
           ''charges'', ''price increase'', ''rate change'', ''fee change'',
           ''pricing change'', ''billing'', ''invoice'', ''payment terms'',
           ''price adjustment'', ''renewal fee'', ''price lock'',
           ''pricing guarantee'', ''price modification''],
        negative_keywords =
          [''increase prices'', ''raise fees'', ''modify pricing'',
           ''change fees'', ''at our discretion'', ''sole discretion'',
           ''without notice'', ''unilateral'', ''at any time'',
           ''right to change'', ''may increase''],
        required_phrases =
          [''pric'', ''fee'', ''cost'', ''payment'', ''subscription'']\<rparr>),
      (''support_obligations'',
       \<lparr>keywords_cfg =
          [''support'', ''technical support'', ''customer support'',
           ''assistance'', ''help desk'', ''support hours'',
           ''support availability'', ''support level'', ''maintenance'',
           ''updates'', ''patches'', ''bug fixes'', ''response time'',
           ''support tier'', ''support plan'', ''customer service'',
           ''service availability''],
        negative_keywords =
          [''no support'', ''no obligation to support'',
           ''may discontinue support'', ''at our discretion'',
           ''no guarantee'', ''best effort'', ''as is'', ''no commitment'',
           ''may suspend'', ''right to discontinue''],
        required_phrases =
          [''support'', ''maintenance'', ''assistance'', ''service'']\<rparr>),
      (''termination_exit'',
       \<lparr>keywords_cfg =
          [''termination'', ''terminate'', ''cancel'', ''cancellation'',
           ''exit'', ''end of term'', ''contract end'', ''notice period'',
           ''termination fee'', ''early termination'', ''wind down'',
           ''transition'', ''off-boarding'', ''data deletion'',
           ''account closure'', ''suspension'', ''renewal''],
        negative_keywords =
          [''termination fee'', ''penalty'', ''early termination fee'',
           ''cannot terminate'', ''must continue'', ''auto-renew'',
           ''automatic renewal'', ''no refund'', ''immediately delete'',
           ''forfeit'', ''early cancellation fee''],
        required_phrases =
          [''terminat'', ''cancel'', ''exit'', ''renewal'', ''end'']\<rparr>),
      (''service_level'',
       \<lparr>keywords_cfg =
          [''sla'', ''service level'', ''uptime'', ''availability'',
           ''performance'', ''guarantee'', ''commitment'', ''downtime'',
           ''credits'', ''compensation'', ''reliability'',
           ''service credit'', ''remedies'', ''service performance'',
           ''service guarantee'', ''warranty'', ''service quality''],
        negative_keywords =
          [''no sla'', ''no guarantee'', ''best effort'', ''as is'',
           ''no warranty'', ''sole remedy'', ''exclusive remedy'',
           ''no liability'', ''no compensation'', ''service credits only'',
           ''as available'', ''without warranty''],
        required_phrases =
          [''sla'', ''uptime'', ''availability'', ''guarantee'',
           ''service level'']\<rparr>)]"

definition LOCK_IN_PATTERNS :: "(string \<times> (string \<times> string list) list) list" where
  "LOCK_IN_PATTERNS =
     [(''data_portability'',
       [(''data_restriction'',
           [''proprietary format'', ''no export'', ''cannot export'',
            ''restrict'']),
        (''no_api_access'',
           [''no api'', ''limited api'', ''no programmatic access'']),
        (''export_restriction'',
           [''export restriction'', ''limited export'', ''no bulk export''])]),
      (''pricing_terms'',
       [(''price_increase_risk'',
           [''increase'', ''raise'', ''adjust'', ''modify'']),
        (''unilateral_pricing'',
           [''sole discretion'', ''unilateral'', ''at our discretion'',
            ''right to change'']),
        (''no_notice_changes'',
           [''without notice'', ''immediate effect'', ''no advance notice'']),
        (''automatic_renewal'',
           [''auto-renew'', ''automatic renewal'', ''automatically renew''])]),
      (''support_obligations'',
       [(''no_support_guarantee'',
           [''no support'', ''no obligation'', ''no guarantee'']),
        (''discontinuation_risk'',
           [''may discontinue'', ''right to discontinue'', ''suspend'']),
        (''no_commitment'',
           [''best effort'', ''no commitment'', ''as is''])]),
      (''termination_exit'',
       [(''exit_fees'',
           [''termination fee'', ''early termination'', ''cancellation fee'']),
        (''cancellation_penalty'',
           [''penalty'', ''forfeit'', ''early cancellation'']),
        (''automatic_renewal'',
           [''auto-renew'', ''automatic renewal'', ''automatically renew''])]),
      (''service_level'',
       [(''no_sla'',
           [''no sla'', ''no service level'']),
        (''no_compensation'',
           [''no compensation'', ''no liability'', ''sole remedy'']),
        (''no_guarantee'',
           [''no guarantee'', ''best effort'', ''as is'', ''without warranty'']),
        (''limited_remedies'',
           [''sole remedy'', ''exclusive remedy'', ''only remedy'',
            ''service credits only''])])]"

subsection \<open>\<^verbatim>\<open>ContractAnalyzer._split_into_sections\<close>\<close>

definition split_into_sections :: "string \<Rightarrow> string list" where
  "split_into_sections text =
     (let sections = re_split [] text;
          sections = map strip (filter (\<lambda>s. 100 < length (strip s)) sections)
      in if length sections < 5
         then filter (\<lambda>p. 100 < length p) (split_newline [] text)
         else sections)"

subsection \<open>\<^verbatim>\<open>ContractAnalyzer._identify_lock_in_mechanism\<close>\<close>

text \<open>The inner loop \<^verbatim>\<open>for pattern in patterns\<close>: true when it returns the mechanism.\<close>

fun pattern_loop :: "string list \<Rightarrow> string \<Rightarrow> bool" where
  "pattern_loop [] text = False"
| "pattern_loop (pattern # rest) text =
     (if contains pattern text then True else pattern_loop rest text)"

fun mechanism_loop :: "(string \<times> string list) list \<Rightarrow> string \<Rightarrow> string" where
  "mechanism_loop [] text = ''standard''"
| "mechanism_loop ((mechanism, patterns) # rest) text =
     (if pattern_loop patterns text then mechanism else mechanism_loop rest text)"

definition identify_lock_in_mechanism :: "string \<Rightarrow> string \<Rightarrow> string" where
  "identify_lock_in_mechanism text category =
     (case map_of LOCK_IN_PATTERNS category of
        None \<Rightarrow> ''standard''
      | Some table \<Rightarrow> mechanism_loop table text)"

subsection \<open>\<^verbatim>\<open>ContractAnalyzer.find_clauses\<close>\<close>

text \<open>The dict literal appended to \<^verbatim>\<open>clauses\<close>.\<close>

definition make_clause ::
  "string \<Rightarrow> nat \<Rightarrow> string \<Rightarrow> string \<Rightarrow> string \<Rightarrow> string \<Rightarrow> string \<Rightarrow> nat \<Rightarrow> pydict" where
  "make_clause vendor_name clause_id file_name category section risk_level lock_in_type
       keyword_matches =
     [(''clause_id'', PStr (vendor_name @ ''_'' @ str_nat clause_id)),
      (''vendor_name'', PStr vendor_name),
      (''contract_file'', PStr file_name),
      (''clause_category'', PStr category),
      (''clause_text'', PStr (take 500 section)),
      (''risk_level'', PStr risk_level),
      (''lock_in_mechanism'', PStr lock_in_type),
      (''keyword_matches'', PInt (int keyword_matches))]"

text \<open>
  The body of \<^verbatim>\<open>for section in sections\<close> for one category, on the state
  \<open>(clause_id, clauses)\<close>. Each \<^verbatim>\<open>continue\<close> returns the state unchanged.
\<close>

definition section_step ::
  "string \<Rightarrow> string \<Rightarrow> string \<Rightarrow> category_config \<Rightarrow> string
     \<Rightarrow> nat \<times> pydict list \<Rightarrow> nat \<times> pydict list" where
  "section_step vendor_name file_name category config section state =
     (let (clause_id, clauses) = state
      in if length section < 100 then (clause_id, clauses)
         else
           (let section_lower = lower section;
                has_required =
                  list_ex (\<lambda>phrase. contains phrase section_lower) (required_phrases config)
            in if \<not> has_required then (clause_id, clauses)
               else
                 (let keyword_matches =
                        length (filter (\<lambda>kw. contains kw section_lower) (keywords_cfg config))
                  in if 2 \<le> keyword_matches
                     then
                       (let clause_id = clause_id + 1;
                            has_negative =
                              list_ex (\<lambda>nkw. contains nkw section_lower)
                                (negative_keywords config);
                            risk_level = (if has_negative then ''High'' else ''Medium'');
                            lock_in_type = identify_lock_in_mechanism section_lower category
                        in (clause_id,
                            clauses @
                              [make_clause vendor_name clause_id file_name category section
                                 risk_level lock_in_type keyword_matches]))
                     else (clause_id, clauses))))"

definition find_clauses :: "string \<Rightarrow> string \<Rightarrow> string \<Rightarrow> pydict list" where
  "find_clauses text vendor_name file_name =
     (let sections = split_into_sections text
      in snd (fold (\<lambda>(category, config) state.
                      fold (section_step vendor_name file_name category config) sections state)
                CLAUSE_CATEGORIES (0, [])))"

subsection \<open>\<^verbatim>\<open>analyze_contract_file\<close> and \<^verbatim>\<open>assess_contract_file\<close>\<close>

text \<open>
  The file is read by \<^verbatim>\<open>extract_text_from_html\<close>, which returns the empty string
  when the file cannot be read; the model starts from its result \<open>text\<close>. The names
  derived from the path (\<open>vendor_name\<close>, \<open>file_name\<close>, \<open>stem\<close>) are inputs as well.
\<close>

definition analyze_contract_file :: "string \<Rightarrow> string \<Rightarrow> string \<Rightarrow> pydict list" where
  "analyze_contract_file text vendor_name file_name =
     (if text = [] \<or> length text < 1000 then []
      else find_clauses text vendor_name file_name)"

text \<open>
  \<^verbatim>\<open>assess_contract_file\<close> returns the error dict or the assessment dict;
  \<^verbatim>\<open>clauses[0]['vendor_name']\<close> raises when the first clause has no such key.
\<close>

definition assess_contract_file ::
  "float_ties \<Rightarrow> string \<Rightarrow> string \<Rightarrow> string \<Rightarrow> string \<Rightarrow> string
     \<Rightarrow> py_exception + pydict" where
  "assess_contract_file fp text file_path vendor_name file_name stem =
     (let clauses = analyze_contract_file text vendor_name file_name
      in case clauses of
           [] \<Rightarrow>
             Inr [(''error'', PStr ''No clauses could be extracted from contract''),
                  (''file_path'', PStr file_path),
                  (''vendor_name'', PStr stem)]
         | first # _ \<Rightarrow>
             (let assessment = score_contract fp clauses
              in case map_of first ''vendor_name'' of
                   None \<Rightarrow> Inl KeyError
                 | Some v \<Rightarrow>
                     (let assessment = dict_set assessment ''vendor_name'' v;
                          assessment = dict_set assessment ''contract_file'' (PStr file_name);
                          assessment =
                            dict_set assessment ''total_clauses'' (PInt (int (length clauses)));
                          assessment =
                            dict_set assessment ''clauses'' (PList (map PDict clauses))
                      in Inr assessment)))"

subsection \<open>\<^verbatim>\<open>InteractiveAssessment.calculate_risk_from_responses\<close>\<close>

text \<open>
  The answers are a dict of strings, read with \<^verbatim>\<open>self.responses.get(key, default)\<close>.
  The built-ins \<^verbatim>\<open>int\<close> and \<^verbatim>\<open>float\<close> that parse two of the answers are parameters
  of the model, \<open>None\<close> standing for the exception that the \<^verbatim>\<open>try\<close> block catches.
\<close>

type_synonym responses = "(string \<times> string) list"

definition response_get :: "responses \<Rightarrow> string \<Rightarrow> string \<Rightarrow> string" where
  "response_get responses key dflt = (case map_of responses key of None \<Rightarrow> dflt | Some v \<Rightarrow> v)"

text \<open>A parsed float: a number, an infinity or not-a-number; \<^verbatim>\<open>uptime < bound\<close>.\<close>

datatype pyfloat = Finite real | PosInf | NegInf | NaN

fun float_less :: "pyfloat \<Rightarrow> real \<Rightarrow> bool" where
  "float_less (Finite x) bound = (x < bound)"
| "float_less NegInf bound = True"
| "float_less PosInf bound = False"
| "float_less NaN bound = False"

text \<open>\<^verbatim>\<open>self.responses.get(key, '').lower() in ['no', 'unclear']\<close>\<close>

definition no_or_unclear :: "responses \<Rightarrow> string \<Rightarrow> bool" where
  "no_or_unclear responses key =
     (lower (response_get responses key []) \<in> set [''no'', ''unclear''])"

text \<open>\<^verbatim>\<open>self.responses.get(key, '').lower() == word\<close>\<close>

definition answer_is :: "responses \<Rightarrow> string \<Rightarrow> string \<Rightarrow> bool" where
  "answer_is responses key word = (lower (response_get responses key []) = word)"

text \<open>The five blocks of increments, each on the score of its category, which starts
  at 0.\<close>

definition data_portability_points :: "responses \<Rightarrow> int" where
  "data_portability_points responses =
     (let score = 0;
          score = (if no_or_unclear responses ''data_export'' then score + 5 else score);
          score = (if no_or_unclear responses ''data_format'' then score + 4 else score);
          score = (if no_or_unclear responses ''api_access'' then score + 3 else score);
          score = (if no_or_unclear responses ''post_termination_access''
                   then score + 3 else score)
      in score)"

definition pricing_terms_points :: "(string \<Rightarrow> int option) \<Rightarrow> responses \<Rightarrow> int" where
  "pricing_terms_points to_int responses =
     (let score = 0;
          score = (if no_or_unclear responses ''price_lock'' then score + 8 else score)
      in if answer_is responses ''price_increase'' ''yes''
         then
           (let score = score + 10;
                score = (if no_or_unclear responses ''price_increase_cap''
                         then score + 5 else score)
            in case to_int (response_get responses ''price_notice'' ''0'') of
                 None \<Rightarrow> score
               | Some notice_days \<Rightarrow> if notice_days < 30 then score + 2 else score)
         else score)"

definition support_obligations_points :: "responses \<Rightarrow> int" where
  "support_obligations_points responses =
     (let score = 0;
          score = (if no_or_unclear responses ''support_sla'' then score + 6 else score);
          score = (if answer_is responses ''support_hours'' ''best-effort''
                   then score + 5 else score);
          score = (if answer_is responses ''feature_changes'' ''yes'' then score + 4 else score)
      in score)"

definition termination_exit_points :: "(string \<Rightarrow> int option) \<Rightarrow> responses \<Rightarrow> int" where
  "termination_exit_points to_int responses =
     (let score = 0;
          score = (if lower (response_get responses ''termination_flexibility'' [])
                        \<in> set [''no'', ''only-for-cause'']
                   then score + 8 else score);
          score = (if answer_is responses ''termination_fee'' ''yes'' then score + 7 else score)
      in if answer_is responses ''auto_renewal'' ''yes''
         then
           (case to_int (response_get responses ''renewal_notice'' ''0'') of
              None \<Rightarrow> score + 4
            | Some renewal_notice \<Rightarrow>
                if 60 < renewal_notice then score + 5
                else if 30 < renewal_notice then score + 3
                else score)
         else score)"

definition service_level_points :: "(string \<Rightarrow> pyfloat option) \<Rightarrow> responses \<Rightarrow> int" where
  "service_level_points to_float responses =
     (let score = 0;
          score =
            (if no_or_unclear responses ''sla_exists'' then score + 15
             else
               (let score =
                      (case to_float (response_get responses ''uptime_percentage'' ''0'') of
                         None \<Rightarrow> score + 10
                       | Some uptime \<Rightarrow>
                           if float_less uptime 99 then score + 8
                           else if float_less uptime (995 / 10) then score + 5
                           else if float_less uptime (999 / 10) then score + 3
                           else score)
                in if no_or_unclear responses ''sla_credits'' then score + 5 else score))
      in if answer_is responses ''liability_cap'' ''yes'' then score + 5 else score)"

text \<open>The dict \<^verbatim>\<open>max_points\<close> of the questionnaire.\<close>

definition questionnaire_max_points :: "(string \<times> int) list" where
  "questionnaire_max_points =
     [(''data_portability'', 15),
      (''pricing_terms'', 25),
      (''support_obligations'', 15),
      (''termination_exit'', 20),
      (''service_level'', 25)]"

text \<open>
  The tier rule of the questionnaire,
  \<^verbatim>\<open>if total_score <= 33: ... elif total_score <= 66: ... else: ...\<close>, as a function of
  the score; Python compares an \<^verbatim>\<open>int\<close> and a \<^verbatim>\<open>float\<close> by value.
\<close>

definition questionnaire_risk_level :: "real \<Rightarrow> string" where
  "questionnaire_risk_level total_score =
     (if total_score \<le> 33 then ''LOW''
      else if total_score \<le> 66 then ''MEDIUM''
      else ''HIGH'')"

definition questionnaire_scores ::
  "(string \<Rightarrow> int option) \<Rightarrow> (string \<Rightarrow> pyfloat option) \<Rightarrow> responses
     \<Rightarrow> (string \<times> int) list" where
  "questionnaire_scores to_int to_float responses =
     [(''data_portability'', data_portability_points responses),
      (''pricing_terms'', pricing_terms_points to_int responses),
      (''support_obligations'', support_obligations_points responses),
      (''termination_exit'', termination_exit_points to_int responses),
      (''service_level'', service_level_points to_float responses)]"

text \<open>
  The returned dict; \<^verbatim>\<open>round(total_score, 2)\<close> of an \<^verbatim>\<open>int\<close> is the \<^verbatim>\<open>int\<close>. Its
  entries \<^verbatim>\<open>vendor_name\<close>, \<^verbatim>\<open>business_criticality\<close> and
  \<^verbatim>\<open>questionnaire_responses\<close> repeat the answers and are left out.
\<close>

definition calculate_risk_from_responses ::
  "(string \<Rightarrow> int option) \<Rightarrow> (string \<Rightarrow> pyfloat option) \<Rightarrow> responses \<Rightarrow> pydict" where
  "calculate_risk_from_responses to_int to_float responses =
     (let category_scores = questionnaire_scores to_int to_float responses;
          total_score = sum_list (map snd category_scores);
          risk_level = questionnaire_risk_level (of_int total_score)
      in [(''total_score'', PInt total_score),
          (''risk_level'', PStr risk_level),
          (''category_scores'', PDict (map (\<lambda>(c, n). (c, PInt n)) category_scores)),
          (''max_points'', PDict (map (\<lambda>(c, n). (c, PInt n)) questionnaire_max_points))])"

text \<open>The tier rule of the Aggregator as a function of the total score: the
  \<^verbatim>\<open>if\<close> chain of \<^verbatim>\<open>calculate_total_score\<close>.\<close>

definition aggregator_risk_level :: "real \<Rightarrow> string" where
  "aggregator_risk_level total_score =
     (if of_int (fst (risk_threshold ''low'')) \<le> total_score
          \<and> total_score \<le> of_int (snd (risk_threshold ''low''))
      then ''LOW''
      else if of_int (fst (risk_threshold ''medium'')) \<le> total_score
          \<and> total_score \<le> of_int (snd (risk_threshold ''medium''))
      then ''MEDIUM''
      else ''HIGH'')"

subsection \<open>Reading the scorer's result, and the Scorer as the specification words it\<close>

text \<open>\<^verbatim>\<open>category_details[category][key]\<close>, \<open>None\<close> when either key is absent.\<close>

definition detail_get :: "(string \<times> pydict) list \<Rightarrow> string \<Rightarrow> string \<Rightarrow> pyval option" where
  "detail_get details category key =
     (case map_of details category of None \<Rightarrow> None | Some d \<Rightarrow> map_of d key)"

text \<open>
  The per-clause penalty of the specification: a High-risk clause contributes the
  multiplier of its mechanism (0.5 when the mechanism is not in the table), any other
  clause half the multiplier of its mechanism (0.3 when it is not in the table). The
  Matcher only emits the risk levels High and Medium.
\<close>

definition spec_clause_penalty :: "pydict \<Rightarrow> real" where
  "spec_clause_penalty c =
     (let mechanism = get_default c ''lock_in_mechanism'' (PStr ''standard'')
      in if get_default c ''risk_level'' (PStr ''Medium'') = PStr ''High''
         then multiplier_get mechanism (1 / 2)
         else (1 / 2) * multiplier_get mechanism (3 / 10))"

definition is_high_risk :: "pydict \<Rightarrow> bool" where
  "is_high_risk c = (get_default c ''risk_level'' (PStr ''Medium'') = PStr ''High'')"

subsection \<open>Example inputs\<close>

text \<open>One choice of the directions at ties: always down.\<close>

definition ties_down :: float_ties where
  "ties_down =
     \<lparr>score_tie = (\<lambda>cs w. False), percentage_tie = (\<lambda>h n. False),
      total_tie = (\<lambda>xs. False)\<rparr>"

text \<open>
  Nine clauses as the Matcher emits them: three pricing clauses, three termination
  clauses, three service-level clauses, none for data portability and support. No
  rounding of their scores is at a tie.
\<close>

definition gap_clauses :: "pydict list" where
  "gap_clauses =
     [make_clause ''Acme'' 1 ''acme_tos.html'' ''pricing_terms''
        ''pricing and fees'' ''Medium'' ''standard'' 2,
      make_clause ''Acme'' 2 ''acme_tos.html'' ''pricing_terms''
        ''payment and billing'' ''Medium'' ''standard'' 2,
      make_clause ''Acme'' 3 ''acme_tos.html'' ''pricing_terms''
        ''subscription fees auto-renew'' ''Medium'' ''automatic_renewal'' 2,
      make_clause ''Acme'' 4 ''acme_tos.html'' ''termination_exit''
        ''cancel before renewal'' ''Medium'' ''standard'' 2,
      make_clause ''Acme'' 5 ''acme_tos.html'' ''termination_exit''
        ''early termination, transition'' ''Medium'' ''exit_fees'' 3,
      make_clause ''Acme'' 6 ''acme_tos.html'' ''termination_exit''
        ''cancellation, no refund'' ''High'' ''standard'' 2,
      make_clause ''Acme'' 7 ''acme_tos.html'' ''service_level''
        ''uptime and availability'' ''Medium'' ''standard'' 2,
      make_clause ''Acme'' 8 ''acme_tos.html'' ''service_level''
        ''uptime, no warranty'' ''High'' ''standard'' 2,
      make_clause ''Acme'' 9 ''acme_tos.html'' ''service_level''
        ''no service level, uptime'' ''Medium'' ''no_sla'' 2]"

subsection \<open>The mechanism classifier as the specification words it\<close>

text \<open>A mechanism entry whose substring list has at least one match in the text.\<close>

definition pattern_hit :: "string \<Rightarrow> string \<times> string list \<Rightarrow> bool" where
  "pattern_hit s entry = list_ex (\<lambda>p. contains p s) (snd entry)"

text \<open>The first such entry in table order names the mechanism; without one, the label
  is \<^verbatim>\<open>standard\<close>.\<close>

definition spec_first_mechanism :: "(string \<times> string list) list \<Rightarrow> string \<Rightarrow> string" where
  "spec_first_mechanism table s =
     (case find (pattern_hit s) table of None \<Rightarrow> ''standard'' | Some entry \<Rightarrow> fst entry)"

text \<open>\<^verbatim>\<open>self.clause_categories[category]\<close> and \<^verbatim>\<open>self.lock_in_patterns[category]\<close> for
  reading the tables; the empty entry stands for a key that is not in the table.\<close>

definition config_for :: "string \<Rightarrow> category_config" where
  "config_for category =
     (case map_of CLAUSE_CATEGORIES category of
        Some config \<Rightarrow> config
      | None \<Rightarrow> \<lparr>keywords_cfg = [], negative_keywords = [], required_phrases = []\<rparr>)"

definition patterns_for :: "string \<Rightarrow> (string \<times> string list) list" where
  "patterns_for category =
     (case map_of LOCK_IN_PATTERNS category of Some table \<Rightarrow> table | None \<Rightarrow> [])"

subsection \<open>Example sections\<close>

text \<open>127 characters, two support keywords (updates, patches), no required phrase of the
  support category.\<close>

definition updates_section :: string where
  "updates_section =
     ''We release updates and patches for the product on a regular schedule, and each release is announced to every customer by email.''"

text \<open>A pricing section that matches two mechanisms, \<^verbatim>\<open>price_increase_risk\<close> (increase)
  and \<^verbatim>\<open>unilateral_pricing\<close> (sole discretion).\<close>

definition pricing_section :: string where
  "pricing_section =
     ''We may increase the fees and pricing of any subscription at our sole discretion, and the new payment terms apply from the next billing period.''"

text \<open>
  Six paragraphs separated by blank lines: the second has exactly 100 characters, the
  others 101.
\<close>

definition six_paragraphs :: string where
  "six_paragraphs =
     replicate 101 (CHR ''b'') @ [nl, nl] @ replicate 100 (CHR ''a'') @ [nl, nl] @
     replicate 101 (CHR ''c'') @ [nl, nl] @ replicate 101 (CHR ''d'') @ [nl, nl] @
     replicate 101 (CHR ''e'') @ [nl, nl] @ replicate 101 (CHR ''f'')"

text \<open>A text of 1042 characters on one line: the pricing section and a filler.\<close>

definition long_contract :: string where
  "long_contract = pricing_section @ replicate 900 (CHR ''.'')"

section \<open>Properties\<close>

subsection \<open>Rounding\<close>

lemma round_nearest_floor: "\<lfloor>x\<rfloor> \<le> round_nearest up x"
  by (simp add: round_nearest_def Let_def)

lemma round_nearest_ceiling: "round_nearest up x \<le> \<lceil>x\<rceil>"
proof -
  have "x = of_int \<lfloor>x\<rfloor> \<Longrightarrow> round_nearest up x = \<lfloor>x\<rfloor>"
    by (simp add: round_nearest_def Let_def)
  moreover have "x \<noteq> of_int \<lfloor>x\<rfloor> \<Longrightarrow> \<lceil>x\<rceil> = \<lfloor>x\<rfloor> + 1"
    by (metis ceiling_altdef)
  moreover have "round_nearest up x \<le> \<lfloor>x\<rfloor> + 1"
    by (simp add: round_nearest_def Let_def)
  ultimately show ?thesis by (cases "x = of_int \<lfloor>x\<rfloor>") auto
qed

lemma round_nearest_near: "\<bar>of_int (round_nearest up x) - x\<bar> \<le> 1 / 2"
proof -
  have "of_int \<lfloor>x\<rfloor> \<le> x" "x < of_int \<lfloor>x\<rfloor> + 1" by linarith+
  then show ?thesis
    by (auto simp: round_nearest_def Let_def abs_le_iff)
qed

lemma py_round_nonneg: "0 \<le> x \<Longrightarrow> 0 \<le> py_round up x n"
proof -
  assume "0 \<le> x"
  then have "0 \<le> x * 10 ^ n" by simp
  then have "0 \<le> \<lfloor>x * 10 ^ n\<rfloor>" by simp
  then have "0 \<le> round_nearest up (x * 10 ^ n)"
    using round_nearest_floor [of "x * 10 ^ n" up] by linarith
  then show ?thesis by (simp add: py_round_def)
qed

lemma py_round_le_int: "x \<le> of_int w \<Longrightarrow> py_round up x n \<le> of_int w"
proof -
  assume "x \<le> of_int w"
  then have "x * 10 ^ n \<le> of_int (w * 10 ^ n)" by simp
  then have "\<lceil>x * 10 ^ n\<rceil> \<le> w * 10 ^ n" by (simp only: ceiling_le_iff)
  then have "round_nearest up (x * 10 ^ n) \<le> w * 10 ^ n"
    using round_nearest_ceiling [of up "x * 10 ^ n"] by linarith
  then have "(of_int (round_nearest up (x * 10 ^ n)) :: real) \<le> of_int (w * 10 ^ n)"
    by (simp only: of_int_le_iff)
  then show ?thesis by (simp add: py_round_def divide_le_eq)
qed

lemma py_round_near: "\<bar>py_round up x n - x\<bar> \<le> 1 / (2 * 10 ^ n)"
proof -
  have "py_round up x n - x = (of_int (round_nearest up (x * 10 ^ n)) - x * 10 ^ n) / 10 ^ n"
    by (simp add: py_round_def diff_divide_distrib)
  then have "\<bar>py_round up x n - x\<bar> = \<bar>of_int (round_nearest up (x * 10 ^ n)) - x * 10 ^ n\<bar> / 10 ^ n"
    by (simp add: abs_divide)   
  also have "\<dots> \<le> (1 / 2) / 10 ^ n"
    by (rule divide_right_mono [OF round_nearest_near]) simp
  finally show ?thesis by simp
qed

lemma py_round_grid: "\<exists>k. py_round up x n = of_int k / 10 ^ n"
  by (auto simp: py_round_def)

subsection \<open>The category scorer in closed form\<close>

lemma multiplier_table_range:
  "map_of LOCK_IN_MULTIPLIERS s = Some m \<Longrightarrow> 3 / 10 \<le> m \<and> m \<le> 1"
  by (auto simp: LOCK_IN_MULTIPLIERS_def split: if_splits)


lemma multiplier_get_range:
  "3 / 10 \<le> d \<Longrightarrow> d \<le> 1 \<Longrightarrow> 3 / 10 \<le> multiplier_get v d \<and> multiplier_get v d \<le> 1"
  by (cases v) (auto split: option.splits dest: multiplier_table_range)

lemma spec_clause_penalty_range: "0 \<le> spec_clause_penalty c \<and> spec_clause_penalty c \<le> 1"
proof -
  let ?m = "get_default c ''lock_in_mechanism'' (PStr ''standard'')"
  have h: "3 / 10 \<le> multiplier_get ?m (1 / 2) \<and> multiplier_get ?m (1 / 2) \<le> 1"
    by (rule multiplier_get_range) simp_all
  have m: "3 / 10 \<le> multiplier_get ?m (3 / 10) \<and> multiplier_get ?m (3 / 10) \<le> 1"
    by (rule multiplier_get_range) simp_all
  from h m show ?thesis by (simp add: spec_clause_penalty_def Let_def)
qed

lemma penalty_loop_closed:
  "penalty_loop cs tp hc =
     (tp + sum_list (map spec_clause_penalty cs), hc + length (filter is_high_risk cs))"
  by (induction cs arbitrary: tp hc)
     (simp_all add: spec_clause_penalty_def is_high_risk_def Let_def algebra_simps)

lemma sum_penalties_range:
  "0 \<le> sum_list (map spec_clause_penalty cs)
   \<and> sum_list (map spec_clause_penalty cs) \<le> of_nat (length cs)"
proof (induction cs)
  case Nil
  show ?case by simp
next
  case (Cons c cs)
  with spec_clause_penalty_range [of c] show ?case by simp
qed

lemma avg_penalty_range:
  assumes "cs \<noteq> []"
  shows "0 \<le> sum_list (map spec_clause_penalty cs) / of_nat (length cs)"
    and "sum_list (map spec_clause_penalty cs) / of_nat (length cs) \<le> 1"
proof -
  from assms have pos: "(0::real) < of_nat (length cs)" by simp
  from sum_penalties_range [of cs] show "0 \<le> sum_list (map spec_clause_penalty cs) / of_nat (length cs)"
    by simp
  from sum_penalties_range [of cs] pos
  show "sum_list (map spec_clause_penalty cs) / of_nat (length cs) \<le> 1"
    by (simp add: divide_le_eq)
qed

lemma category_entry_empty:
  "category_clauses clauses category = [] \<Longrightarrow>
   category_entry fp clauses category w =
     (of_int w / 2,
      [(''score'', PFloat (of_int w / 2)), (''max_points'', PInt w),
       (''clause_count'', PInt 0), (''high_risk_count'', PInt 0),
       (''missing_coverage'', PBool True),
       (''penalty_reason'', PStr ''No clauses found in this category'')])"
  by (simp add: category_entry_def)

lemma category_entry_nonempty:
  assumes "category_clauses clauses category = cs" and "cs \<noteq> []"
  shows "category_entry fp clauses category w =
     (py_round (score_tie fp cs w)
        (of_int w * (sum_list (map spec_clause_penalty cs) / of_nat (length cs))) 2,
      [(''score'', PFloat (py_round (score_tie fp cs w)
           (of_int w * (sum_list (map spec_clause_penalty cs) / of_nat (length cs))) 2)),
       (''max_points'', PInt w),
       (''clause_count'', PInt (int (length cs))),
       (''high_risk_count'', PInt (int (length (filter is_high_risk cs)))),
       (''high_risk_percentage'',
          PFloat (py_round
            (percentage_tie fp (length (filter is_high_risk cs)) (length cs))
            (of_nat (length (filter is_high_risk cs)) / of_nat (length cs) * 100) 1)),
       (''missing_coverage'', PBool False)])"
  using assms by (simp add: category_entry_def penalty_loop_closed Let_def)

lemma map_of_keyed_map:
  "map_of (map (\<lambda>(k, v). (k, f k v)) xs) k = map_option (f k) (map_of xs k)"
  by (induction xs) auto

lemma scores_lookup:
  "map_of (fst (calculate_category_score fp clauses)) category =
     map_option (\<lambda>w. fst (category_entry fp clauses category w)) (map_of CATEGORY_WEIGHTS category)"
  unfolding calculate_category_score_def fst_conv
  by (rule map_of_keyed_map [where f = "\<lambda>c w. fst (category_entry fp clauses c w)"])

lemma details_lookup:
  "map_of (snd (calculate_category_score fp clauses)) category =
     map_option (\<lambda>w. snd (category_entry fp clauses category w)) (map_of CATEGORY_WEIGHTS category)"
  unfolding calculate_category_score_def snd_conv
  by (rule map_of_keyed_map [where f = "\<lambda>c w. snd (category_entry fp clauses c w)"])

lemma category_clauses_empty_iff:
  "category_clauses clauses category = [] \<longleftrightarrow>
     \<not> (\<exists>c \<in> set clauses. map_of c ''clause_category'' = Some (PStr category))"
  by (auto simp: category_clauses_def filter_empty_conv)

lemma category_entry_score_range:
  assumes "0 \<le> w"
  shows "0 \<le> fst (category_entry fp clauses category w) \<and> fst (category_entry fp clauses category w) \<le> of_int w"
proof (cases "category_clauses clauses category = []")
  case True
  with assms show ?thesis by (simp add: category_entry_empty)
next
  case False
  let ?cs = "category_clauses clauses category"
  let ?avg = "sum_list (map spec_clause_penalty ?cs) / of_nat (length ?cs)"
  have a: "0 \<le> ?avg" "?avg \<le> 1" using avg_penalty_range [OF False] by auto
  from assms have w: "(0::real) \<le> of_int w" by simp
  have lo: "0 \<le> of_int w * ?avg" using w a(1) by (rule mult_nonneg_nonneg)
  have "of_int w * ?avg \<le> of_int w * 1" using a(2) w by (rule mult_left_mono)
  then have hi: "of_int w * ?avg \<le> of_int w" by simp
  from py_round_nonneg [OF lo] py_round_le_int [OF hi]
  show ?thesis by (simp add: category_entry_nonempty [OF refl False])
qed


subsection \<open>Evaluating the scorer on clauses made by the Matcher\<close>

lemma make_clause_category [simp]:
  "map_of (make_clause v i f cat sec r m k) ''clause_category'' = Some (PStr cat)"
  by (simp add: make_clause_def)

lemma make_clause_risk [simp]:
  "get_default (make_clause v i f cat sec r m k) ''risk_level'' d = PStr r"
  by (simp add: make_clause_def get_default_def)

lemma make_clause_mechanism [simp]:
  "get_default (make_clause v i f cat sec r m k) ''lock_in_mechanism'' d = PStr m"
  by (simp add: make_clause_def get_default_def)

lemma category_clauses_Nil [simp]: "category_clauses [] c = []"
  by (simp add: category_clauses_def)

lemma category_clauses_make_clause [simp]:
  "category_clauses (make_clause v i f cat sec r m k # cs) c =
     (if cat = c then make_clause v i f cat sec r m k # category_clauses cs c
      else category_clauses cs c)"
  by (simp add: category_clauses_def)

lemma spec_clause_penalty_make_clause [simp]:
  "spec_clause_penalty (make_clause v i f cat sec r m k) =
     (if r = ''High'' then multiplier_get (PStr m) (1 / 2)
      else (1 / 2) * multiplier_get (PStr m) (3 / 10))"
  by (simp add: spec_clause_penalty_def)

lemma multiplier_standard: "multiplier_get (PStr ''standard'') d = 3 / 10"
  by (simp add: LOCK_IN_MULTIPLIERS_def)

lemma multiplier_automatic_renewal: "multiplier_get (PStr ''automatic_renewal'') d = 7 / 10"
  by (simp add: LOCK_IN_MULTIPLIERS_def)

lemma multiplier_exit_fees: "multiplier_get (PStr ''exit_fees'') d = 1 / 2"
  by (simp add: LOCK_IN_MULTIPLIERS_def)

lemma multiplier_no_sla: "multiplier_get (PStr ''no_sla'') d = 1"
  by (simp add: LOCK_IN_MULTIPLIERS_def)

lemmas multiplier_values =
  multiplier_standard multiplier_automatic_renewal multiplier_exit_fees multiplier_no_sla

lemma score_of_category:
  "fst (category_entry fp clauses category w) =
     (let cs = category_clauses clauses category
      in if cs = [] then of_int w / 2
         else py_round (score_tie fp cs w)
                (of_int w * (sum_list (map spec_clause_penalty cs) / of_nat (length cs))) 2)"
  by (cases "category_clauses clauses category = []")
     (simp_all add: category_entry_empty category_entry_nonempty [OF refl] Let_def)

lemma gap_scores:
  "fst (calculate_category_score fp gap_clauses) =
     [(''service_level'', 792 / 100), (''pricing_terms'', 542 / 100),
      (''termination_exit'', 467 / 100), (''data_portability'', 15 / 2),
      (''support_obligations'', 15 / 2)]"
proof -
  have "fst (category_entry fp gap_clauses ''service_level'' 25) = 792 / 100"
    by (simp add: score_of_category gap_clauses_def multiplier_values
        py_round_def round_nearest_def Let_def del: multiplier_get.simps)
  moreover have "fst (category_entry fp gap_clauses ''pricing_terms'' 25) = 542 / 100"
    by (simp add: score_of_category gap_clauses_def multiplier_values
        py_round_def round_nearest_def Let_def del: multiplier_get.simps)
  moreover have "fst (category_entry fp gap_clauses ''termination_exit'' 20) = 467 / 100"
    by (simp add: score_of_category gap_clauses_def multiplier_values
        py_round_def round_nearest_def Let_def del: multiplier_get.simps)
  moreover have "fst (category_entry fp gap_clauses ''data_portability'' 15) = 15 / 2"
    by (simp add: score_of_category gap_clauses_def)
  moreover have "fst (category_entry fp gap_clauses ''support_obligations'' 15) = 15 / 2"
    by (simp add: score_of_category gap_clauses_def)
  ultimately show ?thesis
    by (simp add: calculate_category_score_def CATEGORY_WEIGHTS_def)
qed

lemma score_contract_total:
  "map_of (score_contract fp clauses) ''total_score''
     = Some (PFloat (fst (calculate_total_score fp (fst (calculate_category_score fp clauses)))))"
  by (simp add: score_contract_def split_beta)

lemma score_contract_level:
  "map_of (score_contract fp clauses) ''risk_level''
     = Some (PStr (snd (calculate_total_score fp (fst (calculate_category_score fp clauses)))))"
  by (simp add: score_contract_def split_beta)

subsection \<open>The tier classifier\<close>

lemma risk_threshold_low: "risk_threshold ''low'' = (0, 33)"
  by (simp add: risk_threshold_def RISK_THRESHOLDS_def)

lemma risk_threshold_medium: "risk_threshold ''medium'' = (34, 66)"
  by (simp add: risk_threshold_def RISK_THRESHOLDS_def)

lemma tier_of_total:
  "snd (calculate_total_score fp scores) =
     (let t = fst (calculate_total_score fp scores)
      in if 0 \<le> t \<and> t \<le> 33 then ''LOW''
         else if 34 \<le> t \<and> t \<le> 66 then ''MEDIUM'' else ''HIGH'')"
  by (simp add: calculate_total_score_def Let_def risk_threshold_low risk_threshold_medium)

text \<open>
  Claim C1. The tier is a function of the total score with \<open>\<le> 33\<close> LOW, 34 to 66 MEDIUM
  and \<open>\<ge> 67\<close> HIGH, and 33.01 is MEDIUM. The thresholds of the Aggregator leave the
  scores strictly between 33 and 34 to the \<^verbatim>\<open>else\<close> branch: the nine clauses of
  \<open>gap_clauses\<close> score 5.42 + 4.67 + 7.92 + 7.5 + 7.5 = 33.01, and the Aggregator
  reports the tier HIGH for them, whatever the directions at ties.
\<close>

theorem tier_gap_at_33_01:
  "map_of (score_contract fp gap_clauses) ''total_score'' = Some (PFloat (3301 / 100))
   \<and> map_of (score_contract fp gap_clauses) ''risk_level'' = Some (PStr ''HIGH'')"
proof -
  have "calculate_total_score fp (fst (calculate_category_score fp gap_clauses)) = (3301 / 100, ''HIGH'')"
    by (simp add: gap_scores calculate_total_score_def risk_threshold_low risk_threshold_medium
        py_round_def round_nearest_def Let_def)
  then show ?thesis by (simp add: score_contract_total score_contract_level)
qed

text \<open>The same on the Aggregator alone.\<close>

lemma tier_between_33_and_34:
  "calculate_total_score fp [(''service_level'', 3301 / 100)] = (3301 / 100, ''HIGH'')"
  by (simp add: calculate_total_score_def risk_threshold_low risk_threshold_medium
        py_round_def round_nearest_def Let_def)

subsection \<open>Missing coverage\<close>

text \<open>
  Claim C6. For every category of the weight table: when no clause of the input list
  belongs to the category, its score is exactly half of its weight and its detail record
  has \<^verbatim>\<open>missing_coverage = True\<close>; when at least one clause belongs to it, the detail
  record has \<^verbatim>\<open>missing_coverage = False\<close>.
\<close>

theorem zero_clause_category_half_weight:
  assumes "map_of CATEGORY_WEIGHTS category = Some max_points"
  shows "((\<forall>c \<in> set clauses. map_of c ''clause_category'' \<noteq> Some (PStr category)) \<longrightarrow>
            map_of (fst (calculate_category_score fp clauses)) category
              = Some (of_int max_points / 2)
          \<and> detail_get (snd (calculate_category_score fp clauses)) category ''score''
              = Some (PFloat (of_int max_points / 2))
          \<and> detail_get (snd (calculate_category_score fp clauses)) category ''missing_coverage''
              = Some (PBool True))
       \<and> ((\<exists>c \<in> set clauses. map_of c ''clause_category'' = Some (PStr category)) \<longrightarrow>
            detail_get (snd (calculate_category_score fp clauses)) category ''missing_coverage''
              = Some (PBool False))"
proof (cases "category_clauses clauses category = []")
  case True
  then have none: "\<forall>c \<in> set clauses. map_of c ''clause_category'' \<noteq> Some (PStr category)"
    by (simp add: category_clauses_empty_iff)
  from True assms show ?thesis
    using none
    by (simp add: scores_lookup details_lookup detail_get_def category_entry_empty)
next
  case False
  then have some: "\<exists>c \<in> set clauses. map_of c ''clause_category'' = Some (PStr category)"
    by (simp add: category_clauses_empty_iff)
  from False assms some show ?thesis
    by (auto simp: details_lookup detail_get_def category_entry_nonempty [OF refl False])
qed

text \<open>
  On \<open>gap_clauses\<close>: data portability has no clause and scores 7.5 of 15, pricing has
  clauses.
\<close>

theorem zero_clause_category_half_weight_witness:
  "map_of (fst (calculate_category_score ties_down gap_clauses)) ''data_portability'' = Some (15 / 2)
   \<and> detail_get (snd (calculate_category_score ties_down gap_clauses)) ''data_portability'' ''score''
        = Some (PFloat (15 / 2))
   \<and> detail_get (snd (calculate_category_score ties_down gap_clauses)) ''data_portability''
        ''missing_coverage'' = Some (PBool True)
   \<and> detail_get (snd (calculate_category_score ties_down gap_clauses)) ''pricing_terms''
        ''missing_coverage'' = Some (PBool False)"
proof -
  have w1: "map_of CATEGORY_WEIGHTS ''data_portability'' = Some 15"
    by (simp add: CATEGORY_WEIGHTS_def)
  have w2: "map_of CATEGORY_WEIGHTS ''pricing_terms'' = Some 25"
    by (simp add: CATEGORY_WEIGHTS_def)
  have none: "\<forall>c \<in> set gap_clauses.
      map_of c ''clause_category'' \<noteq> Some (PStr ''data_portability'')"
    by (simp add: gap_clauses_def)
  have some: "\<exists>c \<in> set gap_clauses.
      map_of c ''clause_category'' = Some (PStr ''pricing_terms'')"
    by (simp add: gap_clauses_def)
  from zero_clause_category_half_weight [OF w1, where clauses = gap_clauses and fp = ties_down]
       none
       zero_clause_category_half_weight [OF w2, where clauses = gap_clauses and fp = ties_down]
       some
  show ?thesis by simp
qed

subsection \<open>The category detail record and the category score\<close>

lemma details_of_category:
  "snd (category_entry fp clauses category w) =
     (let cs = category_clauses clauses category
      in if cs = []
         then [(''score'', PFloat (of_int w / 2)), (''max_points'', PInt w),
               (''clause_count'', PInt 0), (''high_risk_count'', PInt 0),
               (''missing_coverage'', PBool True),
               (''penalty_reason'', PStr ''No clauses found in this category'')]
         else [(''score'', PFloat (py_round (score_tie fp cs w)
                  (of_int w * (sum_list (map spec_clause_penalty cs) / of_nat (length cs))) 2)),
               (''max_points'', PInt w),
               (''clause_count'', PInt (int (length cs))),
               (''high_risk_count'', PInt (int (length (filter is_high_risk cs)))),
               (''high_risk_percentage'',
                  PFloat (py_round
                    (percentage_tie fp (length (filter is_high_risk cs)) (length cs))
                    (of_nat (length (filter is_high_risk cs)) / of_nat (length cs) * 100) 1)),
               (''missing_coverage'', PBool False)])"
  by (cases "category_clauses clauses category = []")
     (simp_all add: category_entry_empty category_entry_nonempty [OF refl] Let_def)

lemma detail_get_weighted:
  assumes "map_of CATEGORY_WEIGHTS category = Some w"
  shows "detail_get (snd (calculate_category_score fp clauses)) category key
           = map_of (snd (category_entry fp clauses category w)) key"
  using assms by (simp add: detail_get_def details_lookup)

text \<open>
  Claim C5, as amended. For every category of the weight table with at least one clause
  in the input list, the category score is \<open>max_points\<close> times the average of the
  per-clause penalties, rounded to two decimals (the source stores
  \<^verbatim>\<open>round(category_score, 2)\<close>): it is a whole number of hundredths, at most half a
  hundredth away from that product. This fixes the score, except when the product lies
  exactly halfway between two hundredths, where the double arithmetic of the source
  decides between the two. The penalty of a clause is the one of the specification,
  \<open>spec_clause_penalty\<close>.
\<close>

theorem category_score_rounded_average:
  assumes "map_of CATEGORY_WEIGHTS category = Some max_points"
    and "\<exists>c \<in> set clauses. map_of c ''clause_category'' = Some (PStr category)"
  shows "\<exists>s k. map_of (fst (calculate_category_score fp clauses)) category = Some s
     \<and> s = of_int k / 100
     \<and> \<bar>s - of_int max_points *
            (sum_list (map spec_clause_penalty (category_clauses clauses category))
              / of_nat (length (category_clauses clauses category)))\<bar> \<le> 1 / 200"
proof -
  let ?cs = "category_clauses clauses category"
  let ?x = "of_int max_points * (sum_list (map spec_clause_penalty ?cs) / of_nat (length ?cs))"
  let ?s = "py_round (score_tie fp ?cs max_points) ?x 2"
  from assms(2) have "?cs \<noteq> []"
    by (simp add: category_clauses_empty_iff)
  with assms(1) have s: "map_of (fst (calculate_category_score fp clauses)) category = Some ?s"
    by (simp add: scores_lookup score_of_category Let_def)
  obtain k where k: "?s = of_int k / 10 ^ 2"
    using py_round_grid by blast
  have near: "\<bar>?s - ?x\<bar> \<le> 1 / 200"
    using py_round_near [of "score_tie fp ?cs max_points" ?x 2] by simp
  from s k near show ?thesis by auto
qed

text \<open>
  The three pricing clauses of \<open>gap_clauses\<close> have the penalties 0.15, 0.15, 0.35; the
  product is 65/12 and the score 5.42.
\<close>

theorem category_score_rounded_average_witness:
  "\<exists>s k. map_of (fst (calculate_category_score ties_down gap_clauses)) ''pricing_terms'' = Some s
     \<and> s = of_int k / 100 \<and> \<bar>s - 25 * ((3 / 20 + 3 / 20 + 7 / 20) / 3)\<bar> \<le> 1 / 200"
proof -
  have w: "map_of CATEGORY_WEIGHTS ''pricing_terms'' = Some 25"
    by (simp add: CATEGORY_WEIGHTS_def)
  have some: "\<exists>c \<in> set gap_clauses.
      map_of c ''clause_category'' = Some (PStr ''pricing_terms'')"
    by (simp add: gap_clauses_def)
  have avg: "sum_list (map spec_clause_penalty (category_clauses gap_clauses ''pricing_terms''))
      / of_nat (length (category_clauses gap_clauses ''pricing_terms''))
      = (3 / 20 + 3 / 20 + 7 / 20) / 3"
    by (simp add: gap_clauses_def multiplier_values del: multiplier_get.simps)
  from category_score_rounded_average [OF w some, where fp = ties_down] show ?thesis
    by (simp only: avg of_int_numeral)
qed

text \<open>
  Claim C5 as stated fails: the pricing score of \<open>gap_clauses\<close> is 5.42, while 25 times
  the average penalty is 65/12 = 5.41666... (no tie is involved: the score is 5.42 for
  every direction at ties, by \<open>gap_scores\<close>).
\<close>

theorem category_score_not_exact_average:
  "map_of (fst (calculate_category_score ties_down gap_clauses)) ''pricing_terms''
     \<noteq> Some (25 *
         (sum_list (map spec_clause_penalty (category_clauses gap_clauses ''pricing_terms''))
           / of_nat (length (category_clauses gap_clauses ''pricing_terms''))))"
proof -
  have avg: "sum_list (map spec_clause_penalty (category_clauses gap_clauses ''pricing_terms''))
      / of_nat (length (category_clauses gap_clauses ''pricing_terms''))
      = (3 / 20 + 3 / 20 + 7 / 20) / 3"
    by (simp add: gap_clauses_def multiplier_values del: multiplier_get.simps)
  show ?thesis by (simp add: gap_scores avg)
qed

text \<open>
  Claim C3, as amended. For every category of the weight table the detail record carries
  the score (the one in \<^verbatim>\<open>category_scores\<close>), the maximum points, the clause count, the
  high-risk count and the missing-coverage flag. When the category has at least one
  clause, it carries the high-risk percentage (a whole number of tenths, at most half a
  tenth away from 100 times the share of High-risk clauses) and no penalty reason. When
  the category has no clause, it has no high-risk percentage and carries a penalty reason
  instead.
\<close>

theorem category_detail_keys:
  assumes "map_of CATEGORY_WEIGHTS category = Some max_points"
  shows
    "(\<exists>s. map_of (fst (calculate_category_score fp clauses)) category = Some s
          \<and> detail_get (snd (calculate_category_score fp clauses)) category ''score''
              = Some (PFloat s))
     \<and> detail_get (snd (calculate_category_score fp clauses)) category ''max_points''
          = Some (PInt max_points)
     \<and> detail_get (snd (calculate_category_score fp clauses)) category ''clause_count''
          = Some (PInt (int (length (category_clauses clauses category))))
     \<and> detail_get (snd (calculate_category_score fp clauses)) category ''high_risk_count''
          = Some (PInt (int (length (filter is_high_risk (category_clauses clauses category)))))
     \<and> detail_get (snd (calculate_category_score fp clauses)) category ''missing_coverage''
          = Some (PBool (category_clauses clauses category = []))
     \<and> (category_clauses clauses category \<noteq> [] \<longrightarrow>
          (\<exists>p k. detail_get (snd (calculate_category_score fp clauses)) category
                    ''high_risk_percentage'' = Some (PFloat p)
                \<and> p = of_int k / 10
                \<and> \<bar>p - of_nat (length (filter is_high_risk (category_clauses clauses category)))
                          / of_nat (length (category_clauses clauses category)) * 100\<bar>
                    \<le> 1 / 20)
          \<and> detail_get (snd (calculate_category_score fp clauses)) category ''penalty_reason''
              = None)
     \<and> (category_clauses clauses category = [] \<longrightarrow>
          detail_get (snd (calculate_category_score fp clauses)) category ''high_risk_percentage''
            = None
          \<and> detail_get (snd (calculate_category_score fp clauses)) category ''penalty_reason''
              = Some (PStr ''No clauses found in this category''))"
proof (cases "category_clauses clauses category = []")
  case True
  then have "map_of (fst (calculate_category_score fp clauses)) category
        = Some (of_int max_points / 2)
      \<and> detail_get (snd (calculate_category_score fp clauses)) category ''score''
        = Some (PFloat (of_int max_points / 2))"
    by (simp add: detail_get_weighted [OF assms] details_of_category
        scores_lookup assms score_of_category)
  then have score: "\<exists>s. map_of (fst (calculate_category_score fp clauses)) category = Some s
      \<and> detail_get (snd (calculate_category_score fp clauses)) category ''score''
          = Some (PFloat s)"
    by blast
  from True show ?thesis
    by (simp add: score) (simp add: detail_get_weighted [OF assms] details_of_category)
next
  case False
  let ?cs = "category_clauses clauses category"
  let ?up = "percentage_tie fp (length (filter is_high_risk ?cs)) (length ?cs)"
  let ?x = "of_nat (length (filter is_high_risk ?cs)) / of_nat (length ?cs) * (100::real)"
  obtain k where k: "py_round ?up ?x 1 = of_int k / 10 ^ 1"
    using py_round_grid by blast
  have near: "\<bar>py_round ?up ?x 1 - ?x\<bar> \<le> 1 / 20"
    using py_round_near [of ?up ?x 1] by simp
  have pct: "\<exists>p k. Some (PFloat (py_round ?up ?x 1)) = Some (PFloat p)
      \<and> p = of_int k / 10 \<and> \<bar>p - ?x\<bar> \<le> 1 / 20"
    using k near by auto
  from False pct show ?thesis
    by (simp add: detail_get_weighted [OF assms] details_of_category
        scores_lookup assms score_of_category Let_def)
qed

text \<open>
  On \<open>gap_clauses\<close>: termination has three clauses, one of them High (33.3 percent);
  support has none.
\<close>

theorem category_detail_keys_witness:
  "detail_get (snd (calculate_category_score ties_down gap_clauses)) ''termination_exit''
      ''high_risk_percentage'' = Some (PFloat (333 / 10))
   \<and> detail_get (snd (calculate_category_score ties_down gap_clauses)) ''termination_exit''
      ''clause_count'' = Some (PInt 3)
   \<and> detail_get (snd (calculate_category_score ties_down gap_clauses)) ''termination_exit''
      ''score'' = Some (PFloat (467 / 100))
   \<and> detail_get (snd (calculate_category_score ties_down gap_clauses)) ''support_obligations''
      ''high_risk_percentage'' = None
   \<and> detail_get (snd (calculate_category_score ties_down gap_clauses)) ''support_obligations''
      ''penalty_reason'' = Some (PStr ''No clauses found in this category'')
   \<and> detail_get (snd (calculate_category_score ties_down gap_clauses)) ''support_obligations''
      ''clause_count'' = Some (PInt 0)"
proof -
  have w1: "map_of CATEGORY_WEIGHTS ''termination_exit'' = Some 20"
    by (simp add: CATEGORY_WEIGHTS_def)
  have w2: "map_of CATEGORY_WEIGHTS ''support_obligations'' = Some 15"
    by (simp add: CATEGORY_WEIGHTS_def)
  have l: "length (category_clauses gap_clauses ''termination_exit'') = 3"
    by (simp add: gap_clauses_def)
  have h: "length (filter is_high_risk (category_clauses gap_clauses ''termination_exit'')) = 1"
    by (simp add: gap_clauses_def is_high_risk_def)
  have n: "category_clauses gap_clauses ''termination_exit'' \<noteq> []"
    using l by auto
  have c2: "category_clauses gap_clauses ''support_obligations'' = []"
    by (simp add: gap_clauses_def)
  have s: "map_of (fst (calculate_category_score ties_down gap_clauses)) ''termination_exit''
      = Some (467 / 100)"
    by (simp add: gap_scores)
  have pct: "detail_get (snd (calculate_category_score ties_down gap_clauses))
      ''termination_exit'' ''high_risk_percentage'' = Some (PFloat (333 / 10))"
    by (simp add: detail_get_weighted [OF w1] details_of_category l h n
        py_round_def round_nearest_def Let_def)
  note exit_keys = category_detail_keys [OF w1, where clauses = gap_clauses and fp = ties_down]
  note support_keys = category_detail_keys [OF w2, where clauses = gap_clauses and fp = ties_down]
  from exit_keys obtain s0
    where "map_of (fst (calculate_category_score ties_down gap_clauses)) ''termination_exit''
        = Some s0"
      and "detail_get (snd (calculate_category_score ties_down gap_clauses)) ''termination_exit''
        ''score'' = Some (PFloat s0)"
    by blast
  with s have score: "detail_get (snd (calculate_category_score ties_down gap_clauses))
      ''termination_exit'' ''score'' = Some (PFloat (467 / 100))"
    by simp
  from exit_keys support_keys score pct show ?thesis
    by (simp add: c2 l)
qed

text \<open>
  Claim C3 as stated fails: the detail record of a category without clauses has no
  high-risk percentage.
\<close>

theorem zero_clause_detail_lacks_percentage:
  "detail_get (snd (calculate_category_score ties_down gap_clauses)) ''data_portability''
      ''high_risk_percentage'' = None
   \<and> detail_get (snd (calculate_category_score ties_down gap_clauses)) ''data_portability''
      ''clause_count'' = Some (PInt 0)"
proof -
  have w: "map_of CATEGORY_WEIGHTS ''data_portability'' = Some 15"
    by (simp add: CATEGORY_WEIGHTS_def)
  have c: "category_clauses gap_clauses ''data_portability'' = []"
    by (simp add: gap_clauses_def)
  show ?thesis
    by (simp add: detail_get_weighted [OF w] details_of_category c)
qed

subsection \<open>Bounds of the scores\<close>

lemma weighted_scores_sum_range:
  assumes "\<forall>(c, w) \<in> set ws. 0 \<le> w"
  shows "0 \<le> sum_list (map (\<lambda>(c, w). fst (category_entry fp clauses c w)) ws)
       \<and> sum_list (map (\<lambda>(c, w). fst (category_entry fp clauses c w)) ws)
            \<le> of_int (sum_list (map snd ws))"
  using assms
proof (induction ws)
  case Nil
  show ?case by simp
next
  case (Cons p ws)
  obtain c w where p: "p = (c, w)" by (cases p)
  with Cons.prems have "0 \<le> w" by simp
  from category_entry_score_range [OF this, where clauses = clauses and category = c and fp = fp]
       Cons
  show ?case
    by (simp add: p)
qed

lemma category_scores_values:
  "map snd (fst (calculate_category_score fp clauses))
     = map (\<lambda>(c, w). fst (category_entry fp clauses c w)) CATEGORY_WEIGHTS"
  by (simp add: calculate_category_score_def split_beta)

lemma weights_nonneg: "\<forall>(c, w) \<in> set CATEGORY_WEIGHTS. 0 \<le> w"
  by (simp add: CATEGORY_WEIGHTS_def)

lemma weights_sum: "sum_list (map snd CATEGORY_WEIGHTS) = 100"
  by (simp add: CATEGORY_WEIGHTS_def)

lemma weight_nonneg: "map_of CATEGORY_WEIGHTS category = Some w \<Longrightarrow> 0 \<le> w"
  using weights_nonneg by (auto dest: map_of_SomeD)

text \<open>
  Claim C7. For every clause list: each category of the weight table has a score between
  0 and its weight, the score table has exactly the five categories, the total score
  differs from the sum of the category scores by at most half a hundredth (it is that
  sum rounded to two decimals), and the total score lies between 0 and 100.
\<close>

theorem scores_bounded_and_total_is_sum:
  "(\<forall>category w. map_of CATEGORY_WEIGHTS category = Some w \<longrightarrow>
      (\<exists>s. map_of (fst (calculate_category_score fp clauses)) category = Some s
            \<and> 0 \<le> s \<and> s \<le> of_int w))
   \<and> map fst (fst (calculate_category_score fp clauses)) = map fst CATEGORY_WEIGHTS
   \<and> \<bar>fst (calculate_total_score fp (fst (calculate_category_score fp clauses)))
        - sum_list (map snd (fst (calculate_category_score fp clauses)))\<bar> \<le> 1 / 200
   \<and> 0 \<le> fst (calculate_total_score fp (fst (calculate_category_score fp clauses)))
   \<and> fst (calculate_total_score fp (fst (calculate_category_score fp clauses))) \<le> 100"
proof -
  let ?scores = "fst (calculate_category_score fp clauses)"
  let ?sum = "sum_list (map snd ?scores)"
  let ?up = "total_tie fp (map snd ?scores)"
  have each: "\<forall>category w. map_of CATEGORY_WEIGHTS category = Some w \<longrightarrow>
      (\<exists>s. map_of ?scores category = Some s \<and> 0 \<le> s \<and> s \<le> of_int w)"
    using category_entry_score_range weight_nonneg by (simp add: scores_lookup)
  have keys: "map fst ?scores = map fst CATEGORY_WEIGHTS"
    by (simp add: calculate_category_score_def split_beta)
  have sum: "0 \<le> ?sum \<and> ?sum \<le> 100"
    using weighted_scores_sum_range [OF weights_nonneg, where clauses = clauses]
    by (simp add: category_scores_values weights_sum)
  have total: "fst (calculate_total_score fp ?scores) = py_round ?up ?sum 2"
    by (simp add: calculate_total_score_def Let_def)
  have near: "\<bar>py_round ?up ?sum 2 - ?sum\<bar> \<le> 1 / 200"
    using py_round_near [where x = ?sum and n = 2 and up = ?up] by simp
  have lo: "0 \<le> py_round ?up ?sum 2"
    using sum by (simp add: py_round_nonneg)
  have "py_round ?up ?sum 2 \<le> of_int 100"
    using sum by (intro py_round_le_int) simp
  then have hi: "py_round ?up ?sum 2 \<le> 100" by simp
  from each keys near lo hi show ?thesis
    unfolding total by blast
qed

text \<open>On \<open>gap_clauses\<close>: service level scores 7.92 of 25, and the total is 33.01.\<close>

theorem scores_bounded_and_total_is_sum_witness:
  "map_of (fst (calculate_category_score ties_down gap_clauses)) ''service_level'' = Some (792 / 100)
   \<and> (0::real) \<le> 792 / 100 \<and> (792 / 100 :: real) \<le> 25
   \<and> fst (calculate_total_score ties_down (fst (calculate_category_score ties_down gap_clauses))) = 3301 / 100
   \<and> sum_list (map snd (fst (calculate_category_score ties_down gap_clauses))) = 3301 / 100"
proof -
  have w: "map_of CATEGORY_WEIGHTS ''service_level'' = Some 25"
    by (simp add: CATEGORY_WEIGHTS_def)
  have t: "fst (calculate_total_score ties_down (fst (calculate_category_score ties_down gap_clauses))) = 3301 / 100"
    by (simp add: gap_scores calculate_total_score_def py_round_def round_nearest_def Let_def)
  have s: "map_of (fst (calculate_category_score ties_down gap_clauses)) ''service_level''
      = Some (792 / 100)"
    by (simp add: gap_scores)
  have sm: "sum_list (map snd (fst (calculate_category_score ties_down gap_clauses))) = 3301 / 100"
    by (simp add: gap_scores)
  from scores_bounded_and_total_is_sum [where clauses = gap_clauses and fp = ties_down] w
  have "\<exists>s. map_of (fst (calculate_category_score ties_down gap_clauses)) ''service_level'' = Some s
      \<and> 0 \<le> s \<and> s \<le> of_int 25"
    by blast
  then show ?thesis
    using s t sm by simp
qed

subsection \<open>The mechanism classifier\<close>

lemma pattern_loop_list_ex: "pattern_loop patterns s = list_ex (\<lambda>p. contains p s) patterns"
  by (induction patterns) simp_all

lemma mechanism_loop_find: "mechanism_loop table s = spec_first_mechanism table s"
  by (induction table)
     (auto simp: spec_first_mechanism_def pattern_hit_def pattern_loop_list_ex)

lemma identify_first_match:
  "map_of LOCK_IN_PATTERNS category = Some table \<Longrightarrow>
   identify_lock_in_mechanism s category = spec_first_mechanism table s"
  by (simp add: identify_lock_in_mechanism_def mechanism_loop_find)

lemma spec_first_mechanism_none:
  "\<forall>j < length table. \<not> pattern_hit s (table ! j) \<Longrightarrow>
   spec_first_mechanism table s = ''standard''"
proof -
  assume "\<forall>j < length table. \<not> pattern_hit s (table ! j)"
  then have "find (pattern_hit s) table = None"
    by (auto simp: find_None_iff in_set_conv_nth)
  then show ?thesis by (simp add: spec_first_mechanism_def)
qed

lemma spec_first_mechanism_index:
  assumes "i < length table" and "pattern_hit s (table ! i)"
    and "\<forall>j < i. \<not> pattern_hit s (table ! j)"
  shows "spec_first_mechanism table s = fst (table ! i)"
proof -
  from assms have "find (pattern_hit s) table = Some (table ! i)"
    by (simp add: find_Some_iff) blast
  then show ?thesis by (simp add: spec_first_mechanism_def)
qed

subsection \<open>One step of the Matcher\<close>

lemma make_clause_mechanism_key:
  "map_of (make_clause v i f cat sec r m k) ''lock_in_mechanism'' = Some (PStr m)"
  by (simp add: make_clause_def)

lemma section_step_cases:
  "section_step v f category config sec (cid, cls) = (cid, cls)
   \<or> (100 \<le> length sec
      \<and> list_ex (\<lambda>phrase. contains phrase (lower sec)) (required_phrases config)
      \<and> 2 \<le> length (filter (\<lambda>kw. contains kw (lower sec)) (keywords_cfg config))
      \<and> section_step v f category config sec (cid, cls) =
          (cid + 1,
           cls @ [make_clause v (cid + 1) f category sec
                    (if list_ex (\<lambda>nkw. contains nkw (lower sec)) (negative_keywords config)
                     then ''High'' else ''Medium'')
                    (identify_lock_in_mechanism (lower sec) category)
                    (length (filter (\<lambda>kw. contains kw (lower sec)) (keywords_cfg config)))]))"
  by (simp add: section_step_def Let_def)

lemma section_step_emits:
  assumes "100 \<le> length sec"
    and "list_ex (\<lambda>phrase. contains phrase (lower sec)) (required_phrases config)"
    and "2 \<le> length (filter (\<lambda>kw. contains kw (lower sec)) (keywords_cfg config))"
  shows "section_step v f category config sec (cid, cls) =
          (cid + 1,
           cls @ [make_clause v (cid + 1) f category sec
                    (if list_ex (\<lambda>nkw. contains nkw (lower sec)) (negative_keywords config)
                     then ''High'' else ''Medium'')
                    (identify_lock_in_mechanism (lower sec) category)
                    (length (filter (\<lambda>kw. contains kw (lower sec)) (keywords_cfg config)))])"
  using assms by (simp add: section_step_def Let_def)

text \<open>
  Claim C10. When the Matcher emits a clause for a section and a category whose mechanism
  table is \<open>table\<close>, the clause's mechanism label is the name of the first entry of the
  table, in table order, one of whose substrings occurs in the lower-cased section; when
  no entry has such a substring, the label is \<^verbatim>\<open>standard\<close>.
\<close>

theorem clause_mechanism_is_first_match:
  assumes "map_of LOCK_IN_PATTERNS category = Some table"
    and "section_step vendor fname category config sec (clause_id, cls) = (clause_id', cls')"
    and "cls' \<noteq> cls"
  shows "\<exists>c. cls' = cls @ [c]
     \<and> ((\<forall>j < length table. \<not> pattern_hit (lower sec) (table ! j)) \<longrightarrow>
          map_of c ''lock_in_mechanism'' = Some (PStr ''standard''))
     \<and> (\<forall>i < length table.
          pattern_hit (lower sec) (table ! i)
          \<and> (\<forall>j < i. \<not> pattern_hit (lower sec) (table ! j)) \<longrightarrow>
          map_of c ''lock_in_mechanism'' = Some (PStr (fst (table ! i))))"
proof -
  let ?m = "identify_lock_in_mechanism (lower sec) category"
  from section_step_cases [of vendor fname category config sec clause_id cls] assms(2,3)
  obtain r k where step: "cls' = cls @ [make_clause vendor (clause_id + 1) fname category sec r ?m k]"
    by auto
  have m: "?m = spec_first_mechanism table (lower sec)"
    using assms(1) by (rule identify_first_match)
  show ?thesis
    using step
    by (auto simp: make_clause_mechanism_key m spec_first_mechanism_none spec_first_mechanism_index)
qed

text \<open>
  Claim C9. When the lower-cased section contains none of the required phrases of the
  category's configuration, the step of the Matcher for this category and section leaves
  the clause list and the clause counter unchanged, whatever the number of keywords in
  the section.
\<close>

theorem required_phrase_gate:
  assumes "\<not> list_ex (\<lambda>phrase. contains phrase (lower sec)) (required_phrases config)"
  shows "section_step vendor fname category config sec state = state"
  using assms by (cases state) (simp add: section_step_def Let_def)

subsection \<open>Counting matches without scanning for the misses\<close>

lemma list_ex_nth: "i < length xs \<Longrightarrow> P (xs ! i) \<Longrightarrow> list_ex P xs"
  by (auto simp: list_ex_iff)

lemma two_matches:
  assumes "i < j" and "j < length xs" and "P (xs ! i)" and "P (xs ! j)"
  shows "2 \<le> length (filter P xs)"
proof -
  have "{i, j} \<subseteq> {k. k < length xs \<and> P (xs ! k)}"
    using assms by auto
  then have "card {i, j} \<le> card {k. k < length xs \<and> P (xs ! k)}"
    by (intro card_mono) auto
  moreover have "card {i, j} = 2"
    using assms(1) by simp
  ultimately show ?thesis
    by (simp add: length_filter_conv_card)
qed

subsection \<open>The example sections, evaluated\<close>

lemma lower_updates_section:
  "lower updates_section =
     ''we release updates and patches for the product on a regular schedule, and each release is announced to every customer by email.''"
  by code_simp

lemma lower_pricing_section:
  "lower pricing_section =
     ''we may increase the fees and pricing of any subscription at our sole discretion, and the new payment terms apply from the next billing period.''"
  by code_simp

lemma support_config:
  "required_phrases (config_for ''support_obligations'')
     = [''support'', ''maintenance'', ''assistance'', ''service'']"
  "keywords_cfg (config_for ''support_obligations'')
     = [''support'', ''technical support'', ''customer support'', ''assistance'',
        ''help desk'', ''support hours'', ''support availability'', ''support level'',
        ''maintenance'', ''updates'', ''patches'', ''bug fixes'', ''response time'',
        ''support tier'', ''support plan'', ''customer service'', ''service availability'']"
  by (simp_all add: config_for_def CLAUSE_CATEGORIES_def)

text \<open>
  \<open>updates_section\<close> has 127 characters and the support keywords \<^verbatim>\<open>updates\<close> and
  \<^verbatim>\<open>patches\<close>, but none of the four required phrases of the support category.
\<close>

theorem required_phrase_gate_witness:
  "100 \<le> length updates_section
   \<and> 2 \<le> length (filter (\<lambda>kw. contains kw (lower updates_section))
        (keywords_cfg (config_for ''support_obligations'')))
   \<and> section_step ''Acme'' ''acme_tos.html'' ''support_obligations''
        (config_for ''support_obligations'') updates_section (0, []) = (0, [])"
proof -
  have len: "100 \<le> length updates_section"
    by (simp add: updates_section_def)
  have kw: "2 \<le> length (filter (\<lambda>kw. contains kw (lower updates_section))
      (keywords_cfg (config_for ''support_obligations'')))"
    by (rule two_matches [where i = 9 and j = 10])
       (simp_all add: lower_updates_section support_config)
  have gate: "\<not> list_ex (\<lambda>phrase. contains phrase (lower updates_section))
      (required_phrases (config_for ''support_obligations''))"
    by (simp add: lower_updates_section support_config)
  from len kw required_phrase_gate [OF gate] show ?thesis by simp
qed

lemma pricing_table:
  "map_of LOCK_IN_PATTERNS ''pricing_terms'' = Some (patterns_for ''pricing_terms'')"
  "patterns_for ''pricing_terms'' =
     [(''price_increase_risk'', [''increase'', ''raise'', ''adjust'', ''modify'']),
      (''unilateral_pricing'',
         [''sole discretion'', ''unilateral'', ''at our discretion'', ''right to change'']),
      (''no_notice_changes'', [''without notice'', ''immediate effect'', ''no advance notice'']),
      (''automatic_renewal'', [''auto-renew'', ''automatic renewal'', ''automatically renew''])]"
  by (simp_all add: patterns_for_def LOCK_IN_PATTERNS_def)

lemma pricing_config:
  "required_phrases (config_for ''pricing_terms'')
     = [''pric'', ''fee'', ''cost'', ''payment'', ''subscription'']"
  "keywords_cfg (config_for ''pricing_terms'')
     = [''pricing'', ''fees'', ''payment'', ''cost'', ''subscription'', ''charges'',
        ''price increase'', ''rate change'', ''fee change'', ''pricing change'', ''billing'',
        ''invoice'', ''payment terms'', ''price adjustment'', ''renewal fee'', ''price lock'',
        ''pricing guarantee'', ''price modification'']"
  by (simp_all add: config_for_def CLAUSE_CATEGORIES_def)

lemma pricing_section_length: "100 \<le> length pricing_section"
  by (simp add: pricing_section_def)

lemma pricing_section_required:
  "list_ex (\<lambda>phrase. contains phrase (lower pricing_section))
     (required_phrases (config_for ''pricing_terms''))"
  by (rule list_ex_nth [where i = 1]) (simp_all add: lower_pricing_section pricing_config)

lemma pricing_section_keywords:
  "2 \<le> length (filter (\<lambda>kw. contains kw (lower pricing_section))
     (keywords_cfg (config_for ''pricing_terms'')))"
  by (rule two_matches [where i = 0 and j = 1])
     (simp_all add: lower_pricing_section pricing_config)

text \<open>
  \<open>pricing_section\<close> matches the first and the second entry of the pricing table; the
  clause is labelled with the first.
\<close>

theorem clause_mechanism_is_first_match_witness:
  "pattern_hit (lower pricing_section) (patterns_for ''pricing_terms'' ! 0)
   \<and> pattern_hit (lower pricing_section) (patterns_for ''pricing_terms'' ! 1)
   \<and> fst (patterns_for ''pricing_terms'' ! 0) = ''price_increase_risk''
   \<and> (\<exists>c. snd (section_step ''Acme'' ''acme_tos.html'' ''pricing_terms''
               (config_for ''pricing_terms'') pricing_section (0, [])) = [c]
          \<and> map_of c ''lock_in_mechanism'' = Some (PStr ''price_increase_risk''))"
proof -
  let ?step = "section_step ''Acme'' ''acme_tos.html'' ''pricing_terms''
      (config_for ''pricing_terms'') pricing_section (0, [])"
  have hit0: "pattern_hit (lower pricing_section) (patterns_for ''pricing_terms'' ! 0)"
    unfolding pattern_hit_def
    by (rule list_ex_nth [where i = 0]) (simp_all add: pricing_table lower_pricing_section)
  have hit1: "pattern_hit (lower pricing_section) (patterns_for ''pricing_terms'' ! 1)"
    unfolding pattern_hit_def
    by (rule list_ex_nth [where i = 0]) (simp_all add: pricing_table lower_pricing_section)
  have name0: "fst (patterns_for ''pricing_terms'' ! 0) = ''price_increase_risk''"
    by (simp add: pricing_table)
  have len: "0 < length (patterns_for ''pricing_terms'')"
    by (simp add: pricing_table)
  have emitted: "snd ?step \<noteq> []"
    by (simp add: section_step_emits pricing_section_length pricing_section_required
        pricing_section_keywords)
  from clause_mechanism_is_first_match
         [OF pricing_table(1) surjective_pairing [of ?step] emitted]
  obtain c where c: "snd ?step = [] @ [c]"
    and first: "\<forall>i < length (patterns_for ''pricing_terms'').
          pattern_hit (lower pricing_section) (patterns_for ''pricing_terms'' ! i)
          \<and> (\<forall>j < i. \<not> pattern_hit (lower pricing_section) (patterns_for ''pricing_terms'' ! j))
          \<longrightarrow> map_of c ''lock_in_mechanism''
              = Some (PStr (fst (patterns_for ''pricing_terms'' ! i)))"
    by blast
  from first len hit0 have "map_of c ''lock_in_mechanism''
      = Some (PStr (fst (patterns_for ''pricing_terms'' ! 0)))"
    by simp
  with c hit0 hit1 name0 show ?thesis by simp
qed

subsection \<open>The section splitter\<close>

text \<open>Every section the splitter returns, from the primary split or from the fallback,
  has more than 100 characters.\<close>

lemma sections_longer_than_100:
  "\<forall>s \<in> set (split_into_sections t). 100 < length s"
  by (auto simp: split_into_sections_def Let_def)

lemma re_split_no_newline: "nl \<notin> set t \<Longrightarrow> re_split acc t = [rev acc @ t]"
  by (induction t arbitrary: acc) auto

lemma split_newline_no_newline: "nl \<notin> set t \<Longrightarrow> split_newline acc t = [rev acc @ t]"
  by (induction t arbitrary: acc) auto

lemma match_blank_line:
  assumes "rest = [] \<or> hd rest \<noteq> nl"
  shows "match_separator (nl # rest) = Some 1"
  using assms by (cases rest) (auto simp: match_separator_def)

lemma re_split_blank_line:
  assumes "nl \<notin> set a" and "rest = [] \<or> hd rest \<noteq> nl"
  shows "re_split acc (a @ nl # nl # rest) = (rev acc @ a) # re_split [] rest"
  using assms(1)
proof (induction a arbitrary: acc)
  case Nil
  show ?case using match_blank_line [OF assms(2)] by simp
next
  case (Cons c a)
  then show ?case by auto
qed

lemma strip_no_space:
  assumes "s \<noteq> []" and "\<not> isspace (hd s)" and "\<not> isspace (last s)"
  shows "strip s = s"
proof -
  from assms(1,2) have "dropWhile isspace s = s"
    by (cases s) auto
  moreover from assms(1,3) have "dropWhile isspace (rev s) = rev s"
    by (cases "rev s") (auto simp: last_rev [symmetric] simp del: last_rev)
  ultimately show ?thesis by (simp add: strip_def)
qed

lemma strip_replicate:
  "\<not> isspace c \<Longrightarrow> strip (replicate n c) = replicate n c"
  by (simp add: strip_def dropWhile_replicate)

lemma letters_not_space:
  "\<not> isspace (CHR ''a'')" "\<not> isspace (CHR ''b'')" "\<not> isspace (CHR ''c'')"
  "\<not> isspace (CHR ''d'')" "\<not> isspace (CHR ''e'')" "\<not> isspace (CHR ''f'')"
  by (simp_all add: isspace_def)

lemma letters_not_newline:
  "CHR ''a'' \<noteq> nl" "CHR ''b'' \<noteq> nl" "CHR ''c'' \<noteq> nl"
  "CHR ''d'' \<noteq> nl" "CHR ''e'' \<noteq> nl" "CHR ''f'' \<noteq> nl"
  "nl \<noteq> CHR ''a''" "nl \<noteq> CHR ''b''" "nl \<noteq> CHR ''c''"
  "nl \<noteq> CHR ''d''" "nl \<noteq> CHR ''e''" "nl \<noteq> CHR ''f''"
  by (simp_all add: nl_def)

lemma re_split_six_paragraphs:
  "re_split [] six_paragraphs =
     [replicate 101 (CHR ''b''), replicate 100 (CHR ''a''), replicate 101 (CHR ''c''),
      replicate 101 (CHR ''d''), replicate 101 (CHR ''e''), replicate 101 (CHR ''f'')]"
proof -
  have hd_rep: "\<And>n c xs. 0 < n \<Longrightarrow> hd (replicate n c @ xs) = c"
    by (case_tac n) auto
  show ?thesis
    unfolding six_paragraphs_def
    by (simp add: re_split_blank_line re_split_no_newline letters_not_newline hd_rep)
qed

text \<open>
  Claim C2. Every section has at least 100 characters (\<open>sections_longer_than_100\<close>),
  but a trimmed piece of exactly 100 characters does not survive the filter, which keeps
  \<^verbatim>\<open>len(s.strip()) > 100\<close>. A text that is one line of 100 characters gives no
  section, from the primary split and from the fallback. In \<open>six_paragraphs\<close> the
  primary split finds six pieces; the five of 101 characters are the sections and the
  piece of exactly 100 characters is dropped.
\<close>

theorem hundred_character_piece_dropped:
  "length (strip (replicate 100 (CHR ''a''))) = 100
   \<and> split_into_sections (replicate 100 (CHR ''a'')) = []
   \<and> re_split [] six_paragraphs ! 1 = replicate 100 (CHR ''a'')
   \<and> split_into_sections six_paragraphs =
       [replicate 101 (CHR ''b''), replicate 101 (CHR ''c''), replicate 101 (CHR ''d''),
        replicate 101 (CHR ''e''), replicate 101 (CHR ''f'')]"
proof -
  have one: "split_into_sections (replicate 100 (CHR ''a'')) = []"
    by (simp add: split_into_sections_def re_split_no_newline split_newline_no_newline
        letters_not_newline strip_replicate letters_not_space Let_def)
  have six: "split_into_sections six_paragraphs =
       [replicate 101 (CHR ''b''), replicate 101 (CHR ''c''), replicate 101 (CHR ''d''),
        replicate 101 (CHR ''e''), replicate 101 (CHR ''f'')]"
    by (simp add: split_into_sections_def re_split_six_paragraphs
        strip_replicate letters_not_space Let_def)
  show ?thesis
    by (simp add: one six re_split_six_paragraphs strip_replicate letters_not_space
       )
qed

subsection \<open>The clause list of the Matcher\<close>

lemma section_step_result:
  "section_step v f category config sec st = st
   \<or> (\<exists>c. map_of c ''vendor_name'' = Some (PStr v)
          \<and> section_step v f category config sec st = (fst st + 1, snd st @ [c]))"
proof -
  from section_step_cases [of v f category config sec "fst st" "snd st"]
  show ?thesis
  proof (elim disjE conjE)
    assume "section_step v f category config sec (fst st, snd st) = (fst st, snd st)"
    then show ?thesis by simp
  next
    let ?c = "make_clause v (fst st + 1) f category sec
        (if list_ex (\<lambda>nkw. contains nkw (lower sec)) (negative_keywords config)
         then ''High'' else ''Medium'')
        (identify_lock_in_mechanism (lower sec) category)
        (length (filter (\<lambda>kw. contains kw (lower sec)) (keywords_cfg config)))"
    assume "section_step v f category config sec (fst st, snd st) = (fst st + 1, snd st @ [?c])"
    moreover have "map_of ?c ''vendor_name'' = Some (PStr v)"
      by (simp add: make_clause_def)
    ultimately show ?thesis by auto
  qed
qed

lemma section_step_grows:
  "length (snd st) \<le> length (snd (section_step v f category config sec st))"
  using section_step_result [of v f category config sec st]
  by (elim disjE exE conjE) simp_all

lemma section_step_vendor:
  assumes "\<forall>c \<in> set (snd st). map_of c ''vendor_name'' = Some (PStr v)"
  shows "\<forall>c \<in> set (snd (section_step v f category config sec st)).
           map_of c ''vendor_name'' = Some (PStr v)"
  using section_step_result [of v f category config sec st] assms
  by (elim disjE exE conjE) simp_all

lemma sections_fold_vendor:
  assumes "\<forall>c \<in> set (snd st). map_of c ''vendor_name'' = Some (PStr v)"
  shows "\<forall>c \<in> set (snd (fold (section_step v f category config) secs st)).
           map_of c ''vendor_name'' = Some (PStr v)"
  using assms
proof (induction secs arbitrary: st)
  case Nil
  then show ?case by simp
next
  case (Cons sec secs)
  from section_step_vendor [OF Cons.prems]
  have "\<forall>c \<in> set (snd (section_step v f category config sec st)).
      map_of c ''vendor_name'' = Some (PStr v)" .
  from Cons.IH [OF this] show ?case by simp
qed

lemma categories_fold_vendor:
  assumes "\<forall>c \<in> set (snd st). map_of c ''vendor_name'' = Some (PStr v)"
  shows "\<forall>c \<in> set (snd (fold (\<lambda>(category, config).
             fold (section_step v f category config) secs) cats st)).
           map_of c ''vendor_name'' = Some (PStr v)"
  using assms
proof (induction cats arbitrary: st)
  case Nil
  then show ?case by simp
next
  case (Cons p cats)
  obtain category config where p: "p = (category, config)" by (cases p)
  from sections_fold_vendor [OF Cons.prems]
  have "\<forall>c \<in> set (snd (fold (section_step v f category config) secs st)).
      map_of c ''vendor_name'' = Some (PStr v)" .
  from Cons.IH [OF this] show ?case by (simp add: p)
qed

lemma find_clauses_vendor:
  "\<forall>c \<in> set (find_clauses t v f). map_of c ''vendor_name'' = Some (PStr v)"
proof -
  have "\<forall>c \<in> set (snd (0::nat, [] :: pydict list)). map_of c ''vendor_name'' = Some (PStr v)"
    by simp
  from categories_fold_vendor [OF this] show ?thesis
    unfolding find_clauses_def Let_def .
qed

lemma sections_fold_grows:
  "length (snd st) \<le> length (snd (fold (section_step v f category config) secs st))"
proof (induction secs arbitrary: st)
  case Nil
  show ?case by simp
next
  case (Cons sec secs)
  have "length (snd st) \<le> length (snd (section_step v f category config sec st))"
    by (rule section_step_grows)
  also have "\<dots> \<le> length (snd (fold (section_step v f category config) secs
      (section_step v f category config sec st)))"
    by (rule Cons.IH)
  finally show ?case by simp
qed

lemma sections_fold_emits:
  assumes "sec \<in> set secs" and "100 \<le> length sec"
    and "list_ex (\<lambda>phrase. contains phrase (lower sec)) (required_phrases config)"
    and "2 \<le> length (filter (\<lambda>kw. contains kw (lower sec)) (keywords_cfg config))"
  shows "length (snd st) < length (snd (fold (section_step v f category config) secs st))"
  using assms(1)
proof (induction secs arbitrary: st)
  case Nil
  then show ?case by simp
next
  case (Cons s secs)
  show ?case
  proof (cases "s = sec")
    case True
    have "length (snd st) < length (snd (section_step v f category config sec st))"
      using section_step_emits [OF assms(2-4), of v f category "fst st" "snd st"] by simp
    also have "\<dots> \<le> length (snd (fold (section_step v f category config) secs
        (section_step v f category config sec st)))"
      by (rule sections_fold_grows)
    finally show ?thesis by (simp add: True)
  next
    case False
    with Cons.prems have "sec \<in> set secs" by simp
    have "length (snd st) \<le> length (snd (section_step v f category config s st))"
      by (rule section_step_grows)
    also have "\<dots> < length (snd (fold (section_step v f category config) secs
        (section_step v f category config s st)))"
      by (rule Cons.IH) fact
    finally show ?thesis by simp
  qed
qed

lemma categories_fold_grows:
  "length (snd st) \<le> length (snd (fold (\<lambda>(category, config).
       fold (section_step v f category config) secs) cats st))"
proof (induction cats arbitrary: st)
  case Nil
  show ?case by simp
next
  case (Cons p cats)
  obtain category config where p: "p = (category, config)" by (cases p)
  have "length (snd st) \<le> length (snd (fold (section_step v f category config) secs st))"
    by (rule sections_fold_grows)
  also have "\<dots> \<le> length (snd (fold (\<lambda>(category, config).
       fold (section_step v f category config) secs) cats
         (fold (section_step v f category config) secs st)))"
    by (rule Cons.IH)
  finally show ?case by (simp add: p)
qed

lemma categories_fold_emits:
  assumes "(category, config) \<in> set cats" and "sec \<in> set secs" and "100 \<le> length sec"
    and "list_ex (\<lambda>phrase. contains phrase (lower sec)) (required_phrases config)"
    and "2 \<le> length (filter (\<lambda>kw. contains kw (lower sec)) (keywords_cfg config))"
  shows "length (snd st) < length (snd (fold (\<lambda>(category, config).
       fold (section_step v f category config) secs) cats st))"
  using assms(1)
proof (induction cats arbitrary: st)
  case Nil
  then show ?case by simp
next
  case (Cons p cats)
  obtain c' g' where p: "p = (c', g')" by (cases p)
  show ?case
  proof (cases "p = (category, config)")
    case True
    have "length (snd st) < length (snd (fold (section_step v f category config) secs st))"
      by (rule sections_fold_emits [OF assms(2-5)])
    also have "\<dots> \<le> length (snd (fold (\<lambda>(category, config).
       fold (section_step v f category config) secs) cats
         (fold (section_step v f category config) secs st)))"
      by (rule categories_fold_grows)
    finally show ?thesis by (simp add: True)
  next
    case False
    with Cons.prems have "(category, config) \<in> set cats" by simp
    have "length (snd st) \<le> length (snd (fold (section_step v f c' g') secs st))"
      by (rule sections_fold_grows)
    also have "\<dots> < length (snd (fold (\<lambda>(category, config).
       fold (section_step v f category config) secs) cats
         (fold (section_step v f c' g') secs st)))"
      by (rule Cons.IH) fact
    finally show ?thesis by (simp add: p)
  qed
qed

lemma qualifying_section_gives_clause:
  assumes "(category, config) \<in> set CLAUSE_CATEGORIES"
    and "sec \<in> set (split_into_sections t)"
    and "list_ex (\<lambda>phrase. contains phrase (lower sec)) (required_phrases config)"
    and "2 \<le> length (filter (\<lambda>kw. contains kw (lower sec)) (keywords_cfg config))"
  shows "find_clauses t v f \<noteq> []"
proof -
  from sections_longer_than_100 [rule_format, OF assms(2)] have len: "100 \<le> length sec"
    by simp
  from categories_fold_emits [OF assms(1,2) len assms(3,4), of "(0, [])" v f]
  show ?thesis
    unfolding find_clauses_def Let_def by auto
qed

subsection \<open>The result of \<^verbatim>\<open>assess_contract_file\<close>\<close>

lemma map_of_dict_set:
  "map_of (dict_set d k v) k' = (if k' = k then Some v else map_of d k')"
  by (induction d) auto

lemma score_contract_no_error: "map_of (score_contract fp cls) ''error'' = None"
  by (simp add: score_contract_def split_beta)

lemma assess_short_or_empty:
  assumes "analyze_contract_file doc vendor fname = []"
  shows "assess_contract_file fp doc file_path vendor fname stem =
     Inr [(''error'', PStr ''No clauses could be extracted from contract''),
          (''file_path'', PStr file_path), (''vendor_name'', PStr stem)]"
  using assms by (simp add: assess_contract_file_def)

lemma assess_with_clauses:
  assumes "analyze_contract_file doc vendor fname = cls" and "cls \<noteq> []"
    and "\<forall>c \<in> set cls. map_of c ''vendor_name'' = Some (PStr vendor)"
  shows "assess_contract_file fp doc file_path vendor fname stem =
     Inr (dict_set (dict_set (dict_set (dict_set (score_contract fp cls)
            ''vendor_name'' (PStr vendor))
            ''contract_file'' (PStr fname))
            ''total_clauses'' (PInt (int (length cls))))
            ''clauses'' (PList (map PDict cls)))"
proof -
  from assms(2) obtain c0 rest where cls: "cls = c0 # rest"
    by (cases cls) auto
  with assms(3) have "map_of c0 ''vendor_name'' = Some (PStr vendor)"
    by simp
  with assms(1) cls show ?thesis
    by (simp add: assess_contract_file_def Let_def)
qed

lemma analyze_clauses_vendor:
  "\<forall>c \<in> set (analyze_contract_file doc vendor fname).
     map_of c ''vendor_name'' = Some (PStr vendor)"
  using find_clauses_vendor [of doc vendor fname]
  by (simp add: analyze_contract_file_def)

text \<open>
  Claim C8. \<^verbatim>\<open>assess_contract_file\<close> always returns a dict. The dict has the key
  \<^verbatim>\<open>error\<close> exactly when the extracted text is empty or shorter than 1000 characters
  or the Matcher finds no clause in it; then it has neither \<^verbatim>\<open>total_score\<close> nor
  \<^verbatim>\<open>risk_level\<close>. In every other case it has no key \<^verbatim>\<open>error\<close> and carries the
  total score and the risk level that the Aggregator computes from the clauses.
\<close>

theorem assess_error_exactly_when_no_clauses:
  "\<exists>r. assess_contract_file fp doc file_path vendor fname stem = Inr r
     \<and> (map_of r ''error'' \<noteq> None \<longleftrightarrow>
          doc = [] \<or> length doc < 1000 \<or> find_clauses doc vendor fname = [])
     \<and> (map_of r ''error'' \<noteq> None \<longrightarrow>
          map_of r ''error'' = Some (PStr ''No clauses could be extracted from contract'')
          \<and> map_of r ''total_score'' = None \<and> map_of r ''risk_level'' = None)
     \<and> (map_of r ''error'' = None \<longrightarrow>
          map_of r ''total_score'' = Some (PFloat (fst (calculate_total_score fp
             (fst (calculate_category_score fp (find_clauses doc vendor fname))))))
          \<and> map_of r ''risk_level'' = Some (PStr (snd (calculate_total_score fp
             (fst (calculate_category_score fp (find_clauses doc vendor fname)))))))"
proof (cases "doc = [] \<or> length doc < 1000 \<or> find_clauses doc vendor fname = []")
  case True
  then have "analyze_contract_file doc vendor fname = []"
    by (auto simp: analyze_contract_file_def)
  from assess_short_or_empty [OF this, of fp file_path stem] True show ?thesis
    by simp
next
  case False
  then have cls: "analyze_contract_file doc vendor fname = find_clauses doc vendor fname"
    and ne: "find_clauses doc vendor fname \<noteq> []"
    by (auto simp: analyze_contract_file_def)
  from assess_with_clauses [OF cls ne find_clauses_vendor, of fp file_path stem] False
  show ?thesis
    by (simp add: map_of_dict_set score_contract_no_error score_contract_total
        score_contract_level)
qed

subsection \<open>A text on one line\<close>

lemma split_one_line:
  "nl \<notin> set t \<Longrightarrow> split_into_sections t = (if 100 < length t then [t] else [])"
  by (simp add: split_into_sections_def Let_def re_split_no_newline split_newline_no_newline)

lemma starts_with_append: "starts_with p a \<Longrightarrow> starts_with p (a @ b)"
  by (induction p a rule: starts_with.induct) (auto split: if_splits)

lemma contains_empty: "contains [] s"
  by (cases s) simp_all

lemma contains_append_left: "contains p a \<Longrightarrow> contains p (a @ b)"
proof (induction a)
  case Nil
  then show ?case by (simp add: contains_empty)
next
  case (Cons c a)
  then show ?case
    by (cases "starts_with p (c # a)") (use starts_with_append [of p "c # a" b] in auto)
qed

lemma contains_long_contract:
  "contains p (lower pricing_section) \<Longrightarrow> contains p (lower long_contract)"
  by (simp add: long_contract_def lower_def contains_append_left)

lemma long_contract_length: "length long_contract = 1042"
  by (simp add: long_contract_def pricing_section_def)

lemma long_contract_one_line: "nl \<notin> set long_contract"
  by (simp add: long_contract_def pricing_section_def nl_def)

lemma long_contract_has_clause:
  "find_clauses long_contract ''Acme'' ''acme_tos.html'' \<noteq> []"
proof (rule qualifying_section_gives_clause
    [where category = "''pricing_terms''" and config = "config_for ''pricing_terms''"
       and sec = long_contract])
  show "(''pricing_terms'', config_for ''pricing_terms'') \<in> set CLAUSE_CATEGORIES"
    by (simp add: config_for_def CLAUSE_CATEGORIES_def)
  show "long_contract \<in> set (split_into_sections long_contract)"
    by (simp add: split_one_line long_contract_one_line long_contract_length)
  show "list_ex (\<lambda>phrase. contains phrase (lower long_contract))
      (required_phrases (config_for ''pricing_terms''))"
    by (rule list_ex_nth [where i = 1])
       (simp_all add: pricing_config contains_long_contract lower_pricing_section)
  show "2 \<le> length (filter (\<lambda>kw. contains kw (lower long_contract))
      (keywords_cfg (config_for ''pricing_terms'')))"
    by (rule two_matches [where i = 0 and j = 1])
       (simp_all add: pricing_config contains_long_contract lower_pricing_section)
qed

text \<open>
  The empty text gives the error dict. \<open>long_contract\<close> has 1042 characters and a
  pricing clause, and gives an assessment without the key \<^verbatim>\<open>error\<close>.
\<close>

theorem assess_error_exactly_when_no_clauses_witness:
  "(\<exists>r. assess_contract_file ties_down [] ''/tmp/acme_tos.html'' ''Acme'' ''acme_tos.html''
          ''acme_tos'' = Inr r
        \<and> map_of r ''error'' = Some (PStr ''No clauses could be extracted from contract'')
        \<and> map_of r ''total_score'' = None)
   \<and> \<not> length long_contract < 1000
   \<and> find_clauses long_contract ''Acme'' ''acme_tos.html'' \<noteq> []
   \<and> (\<exists>r. assess_contract_file ties_down long_contract ''/tmp/acme_tos.html'' ''Acme''
          ''acme_tos.html'' ''acme_tos'' = Inr r
        \<and> map_of r ''error'' = None
        \<and> map_of r ''total_score'' \<noteq> None
        \<and> map_of r ''risk_level'' \<noteq> None)"
proof -
  have long: "\<not> (long_contract = [] \<or> length long_contract < 1000
      \<or> find_clauses long_contract ''Acme'' ''acme_tos.html'' = [])"
    using long_contract_has_clause long_contract_length by auto
  from assess_error_exactly_when_no_clauses
         [where fp = ties_down and doc = "[]" and file_path = "''/tmp/acme_tos.html''"
            and vendor = "''Acme''" and fname = "''acme_tos.html''" and stem = "''acme_tos''"]
  have short_case: "\<exists>r. assess_contract_file ties_down [] ''/tmp/acme_tos.html'' ''Acme''
          ''acme_tos.html'' ''acme_tos'' = Inr r
        \<and> map_of r ''error'' = Some (PStr ''No clauses could be extracted from contract'')
        \<and> map_of r ''total_score'' = None"
    by auto
  from assess_error_exactly_when_no_clauses
         [where fp = ties_down and doc = long_contract and file_path = "''/tmp/acme_tos.html''"
            and vendor = "''Acme''" and fname = "''acme_tos.html''" and stem = "''acme_tos''"]
       long
  have long_case: "\<exists>r. assess_contract_file ties_down long_contract ''/tmp/acme_tos.html'' ''Acme''
          ''acme_tos.html'' ''acme_tos'' = Inr r
        \<and> map_of r ''error'' = None
        \<and> map_of r ''total_score'' \<noteq> None
        \<and> map_of r ''risk_level'' \<noteq> None"
    by auto
  from short_case long_case long show ?thesis by simp
qed

subsection \<open>The questionnaire and the Aggregator\<close>

lemma aggregator_tier:
  "snd (calculate_total_score fp scores) =
     aggregator_risk_level (fst (calculate_total_score fp scores))"
  by (simp add: calculate_total_score_def aggregator_risk_level_def Let_def)

lemma aggregator_risk_level_ranges:
  "aggregator_risk_level t =
     (if 0 \<le> t \<and> t \<le> 33 then ''LOW''
      else if 34 \<le> t \<and> t \<le> 66 then ''MEDIUM'' else ''HIGH'')"
  by (simp add: aggregator_risk_level_def risk_threshold_low risk_threshold_medium)

text \<open>On a whole number that is not negative, the two tier rules agree.\<close>

lemma tiers_agree_on_whole_scores:
  "0 \<le> n \<Longrightarrow> questionnaire_risk_level (of_int n) = aggregator_risk_level (of_int n)"
proof -
  assume "0 \<le> n"
  moreover have "n \<le> 33 \<or> 34 \<le> n" by linarith
  ultimately show ?thesis
    by (auto simp: questionnaire_risk_level_def aggregator_risk_level_ranges)
qed

lemma py_round_whole: "py_round up (of_int n) 2 = of_int n"
proof -
  have "(of_int n :: real) * 10 ^ 2 = of_int (n * 100)" by simp
  then have "round_nearest up (of_int n * 10 ^ 2) = n * 100"
    by (simp only: round_nearest_def Let_def floor_of_int) simp
  then show ?thesis by (simp add: py_round_def)
qed

lemma questionnaire_points_nonneg:
  "0 \<le> data_portability_points r"
  "0 \<le> pricing_terms_points to_int r"
  "0 \<le> support_obligations_points r"
  "0 \<le> termination_exit_points to_int r"
  "0 \<le> service_level_points to_float r"
  by (simp_all add: data_portability_points_def pricing_terms_points_def
      support_obligations_points_def termination_exit_points_def service_level_points_def
      Let_def split: option.splits)

lemma questionnaire_total_nonneg:
  "0 \<le> sum_list (map snd (questionnaire_scores to_int to_float r))"
  by (simp add: questionnaire_scores_def questionnaire_points_nonneg)

text \<open>
  The Aggregator, given the category scores of the questionnaire, reports the total and
  the tier that the questionnaire reports.
\<close>

lemma questionnaire_tier_is_aggregator_tier:
  "calculate_total_score fp
       (map (\<lambda>(c, n). (c, of_int n)) (questionnaire_scores to_int to_float r))
     = (of_int (sum_list (map snd (questionnaire_scores to_int to_float r))),
        questionnaire_risk_level
          (of_int (sum_list (map snd (questionnaire_scores to_int to_float r)))))"
proof -
  let ?qs = "questionnaire_scores to_int to_float r"
  let ?as = "map (\<lambda>(c, n). (c, real_of_int n)) ?qs"
  have sum: "sum_list (map snd ?as) = of_int (sum_list (map snd ?qs))"
    by (simp add: questionnaire_scores_def)
  have total: "fst (calculate_total_score fp ?as) = of_int (sum_list (map snd ?qs))"
    unfolding calculate_total_score_def Let_def fst_conv
    by (simp only: sum py_round_whole)
  have "snd (calculate_total_score fp ?as)
      = aggregator_risk_level (of_int (sum_list (map snd ?qs)))"
    by (simp only: aggregator_tier total)
  also have "\<dots> = questionnaire_risk_level (of_int (sum_list (map snd ?qs)))"
    by (rule tiers_agree_on_whole_scores [symmetric]) (rule questionnaire_total_nonneg)
  finally show ?thesis using total by (simp add: prod_eq_iff)
qed

lemma questionnaire_reports:
  "map_of (calculate_risk_from_responses to_int to_float r) ''risk_level''
     = Some (PStr (questionnaire_risk_level
          (of_int (sum_list (map snd (questionnaire_scores to_int to_float r))))))"
  by (simp add: calculate_risk_from_responses_def Let_def)

lemma same_weight_table: "map_of questionnaire_max_points = map_of CATEGORY_WEIGHTS"
  by (rule ext) (simp add: questionnaire_max_points_def CATEGORY_WEIGHTS_def)

lemma same_weight_entries: "set questionnaire_max_points = set CATEGORY_WEIGHTS"
  by (auto simp: questionnaire_max_points_def CATEGORY_WEIGHTS_def)


end
